theory Spec2Isabelle
  imports Complex_Main "HOL-Library.AList" "HOL-Library.Char_ord" "HOL-Library.List_Lexorder"
begin

section \<open>Python values, exceptions and strings\<close>

text \<open>
  The classifier of \<^verbatim>\<open>src/src/notebook.ipynb\<close> (class \<^verbatim>\<open>CybercrimeClassifier\<close>) and
  the filtering cell of \<^verbatim>\<open>src/unnamed/part_000\<close> are embedded as HOL functions.
  A Python call that can raise returns \<open>exn + 'a\<close> (\<open>Inl\<close> the exception); a
  \<^verbatim>\<open>try/except Exception\<close> is the case distinction on that sum.  A Python \<^verbatim>\<open>str\<close> is a
  \<open>string\<close>, its characters the code points 0..255; a Python float is the \<open>rat\<close>
  that the double denotes (not-a-number and the infinities are left out), so that
  comparisons are exact.
\<close>

datatype exn =
    ValueError string
  | IndexError
  | AttributeError
  | LibraryError string

text \<open>
  The argument of \<^verbatim>\<open>preprocess_text\<close>: a \<^verbatim>\<open>str\<close>, or any other object, of which the
  code only takes \<^verbatim>\<open>str(text)\<close> (a string, or whatever its \<^verbatim>\<open>__str__\<close> raises).
\<close>

datatype pytext = PyStr string | PyObj "exn + string"

definition py_str :: "pytext \<Rightarrow> exn + string" where
  "py_str text = (case text of PyStr s \<Rightarrow> Inr s | PyObj r \<Rightarrow> r)"

text \<open>\<^verbatim>\<open>str.lower\<close> on the code points 0..255: A-Z and the Latin-1 capitals move by 32.\<close>

definition lower_char :: "char \<Rightarrow> char" where
  "lower_char c =
     (let n = (of_char c :: nat)
      in if (65 \<le> n \<and> n \<le> 90) \<or> (192 \<le> n \<and> n \<le> 222 \<and> n \<noteq> 215)
         then char_of (n + 32) else c)"

definition lower :: "string \<Rightarrow> string" where
  "lower s = map lower_char s"

text \<open>The class \<^verbatim>\<open>[a-zA-Z]\<close>, and \<^verbatim>\<open>\s\<close> / \<^verbatim>\<open>str.isspace\<close> on the code points 0..255.\<close>

definition is_letter :: "char \<Rightarrow> bool" where
  "is_letter c =
     (let n = (of_char c :: nat) in (65 \<le> n \<and> n \<le> 90) \<or> (97 \<le> n \<and> n \<le> 122))"

definition is_space :: "char \<Rightarrow> bool" where
  "is_space c =
     (let n = (of_char c :: nat)
      in (9 \<le> n \<and> n \<le> 13) \<or> (28 \<le> n \<and> n \<le> 32) \<or> n = 133 \<or> n = 160)"

definition is_digit :: "char \<Rightarrow> bool" where
  "is_digit c = (let n = (of_char c :: nat) in 48 \<le> n \<and> n \<le> 57)"

text \<open>\<^verbatim>\<open>sep.join(xs)\<close>.\<close>

fun join :: "string \<Rightarrow> string list \<Rightarrow> string" where
  "join sep [] = []"
| "join sep [x] = x"
| "join sep (x # y # ys) = x @ sep @ join sep (y # ys)"

text \<open>\<^verbatim>\<open>s.split()\<close>: the maximal runs of non-whitespace characters.\<close>

fun split_acc :: "string \<Rightarrow> string \<Rightarrow> string list" where
  "split_acc w [] = (if w = [] then [] else [w])"
| "split_acc w (c # cs) =
     (if is_space c then (if w = [] then split_acc [] cs else w # split_acc [] cs)
      else split_acc (w @ [c]) cs)"

definition split :: "string \<Rightarrow> string list" where
  "split s = split_acc [] s"

text \<open>
  \<^verbatim>\<open>xs[i]\<close> on a list or an array: positions 0..n-1 from the front, -1..-n from the
  back, \<^verbatim>\<open>IndexError\<close> for every other index.
\<close>

definition py_index :: "'a list \<Rightarrow> int \<Rightarrow> exn + 'a" where
  "py_index xs i =
     (if 0 \<le> i \<and> i < int (length xs) then Inr (xs ! nat i)
      else if i < 0 \<and> - int (length xs) \<le> i then Inr (xs ! nat (int (length xs) + i))
      else Inl IndexError)"

text \<open>
  The float literal \<^verbatim>\<open>0.3\<close> of \<^verbatim>\<open>predict\<close>: the double nearest to 3/10, which is
  5404319552844595 / 2^54.
\<close>

definition confidence_threshold :: rat where
  "confidence_threshold = 5404319552844595 / 18014398509481984"

text \<open>\<^verbatim>\<open>max(xs)\<close>: \<^verbatim>\<open>ValueError\<close> on an empty sequence.\<close>

definition py_max :: "rat list \<Rightarrow> exn + rat" where
  "py_max xs = (case xs of [] \<Rightarrow> Inl (ValueError ''max() arg is an empty sequence'')
                | x # ys \<Rightarrow> Inr (fold max ys x))"


section \<open>Regular expressions of the text normalizer\<close>

text \<open>
  The patterns handed to \<^verbatim>\<open>re.sub\<close> use literals, character classes, \<^verbatim>\<open>?\<close>, \<^verbatim>\<open>+\<close>,
  \<^verbatim>\<open>{n}\<close>, \<^verbatim>\<open>{n,}\<close> on a class, concatenation and \<^verbatim>\<open>|\<close>.  \<open>rx_match r s\<close> lists the
  remainders of \<open>s\<close> after each way \<open>r\<close> can match a prefix of \<open>s\<close>, in the order the
  backtracking matcher tries them (greedy repetition first, left alternative first):
  the head of the list is the match \<^verbatim>\<open>re\<close> reports.
\<close>

datatype rx =
    Lit string
  | Opt "char \<Rightarrow> bool"
  | Rep nat "char \<Rightarrow> bool"
  | AtLeast nat "char \<Rightarrow> bool"
  | Seq rx rx
  | Alt rx rx

fun rx_match :: "rx \<Rightarrow> string \<Rightarrow> string list" where
  "rx_match (Lit w) s = (if take (length w) s = w then [drop (length w) s] else [])"
| "rx_match (Opt p) s = (case s of [] \<Rightarrow> [s] | c # cs \<Rightarrow> (if p c then [cs, s] else [s]))"
| "rx_match (Rep n p) s = (if n \<le> length (takeWhile p s) then [drop n s] else [])"
| "rx_match (AtLeast n p) s =
     map (\<lambda>j. drop j s) (rev [n ..< Suc (length (takeWhile p s))])"
| "rx_match (Seq a b) s = concat (map (rx_match b) (rx_match a s))"
| "rx_match (Alt a b) s = rx_match a s @ rx_match b s"

text \<open>
  \<^verbatim>\<open>re.sub(pattern, repl, s)\<close>: scan from the left, replace the match found at the
  current position and go on after it, else copy one character.  The third argument
  counts the characters of a match still to be dropped.
\<close>

fun re_sub :: "rx \<Rightarrow> string \<Rightarrow> nat \<Rightarrow> string \<Rightarrow> string" where
  "re_sub r repl skip [] = (case rx_match r [] of [] \<Rightarrow> [] | _ # _ \<Rightarrow> repl)"
| "re_sub r repl (Suc k) (c # cs) = re_sub r repl k cs"
| "re_sub r repl 0 (c # cs) =
     (case rx_match r (c # cs) of
        [] \<Rightarrow> c # re_sub r repl 0 cs
      | rest # _ \<Rightarrow>
          (let n = length (c # cs) - length rest
           in if n = 0 then repl @ c # re_sub r repl 0 cs
              else repl @ re_sub r repl (n - 1) cs))"

definition non_space :: "char \<Rightarrow> bool" where
  "non_space c = (\<not> is_space c)"

text \<open>\<^verbatim>\<open>r'http\S+|www\S+'\<close>\<close>

definition url_rx :: rx where
  "url_rx = Alt (Seq (Lit ''http'') (AtLeast 1 non_space))
                (Seq (Lit ''www'') (AtLeast 1 non_space))"

text \<open>\<^verbatim>\<open>r'\S+@\S+'\<close>\<close>

definition email_rx :: rx where
  "email_rx = Seq (AtLeast 1 non_space) (Seq (Lit ''@'') (AtLeast 1 non_space))"

text \<open>\<^verbatim>\<open>r'\+?\d{10,}|\+?\d{3}[-\s]?\d{3}[-\s]?\d{4}'\<close>\<close>

definition dash_or_space :: "char \<Rightarrow> bool" where
  "dash_or_space c = (c = CHR ''-'' \<or> is_space c)"

definition phone_rx :: rx where
  "phone_rx =
     Alt (Seq (Opt (\<lambda>c. c = CHR ''+'')) (AtLeast 10 is_digit))
         (Seq (Opt (\<lambda>c. c = CHR ''+''))
           (Seq (Rep 3 is_digit)
             (Seq (Opt dash_or_space)
               (Seq (Rep 3 is_digit)
                 (Seq (Opt dash_or_space) (Rep 4 is_digit))))))"

text \<open>\<^verbatim>\<open>r'\s+'\<close>\<close>

definition spaces_rx :: rx where
  "spaces_rx = AtLeast 1 is_space"

text \<open>\<^verbatim>\<open>r'[^a-zA-Z\s!?.]'\<close>\<close>

definition not_kept_punct_rx :: rx where
  "not_kept_punct_rx =
     Rep 1 (\<lambda>c. \<not> (is_letter c \<or> is_space c \<or> c = CHR ''!'' \<or> c = CHR ''?'' \<or> c = CHR ''.''))"

text \<open>\<^verbatim>\<open>r"[^a-zA-Z\s]"\<close>\<close>

definition not_letter_rx :: rx where
  "not_letter_rx = Rep 1 (\<lambda>c. \<not> (is_letter c \<or> is_space c))"

section \<open>The classifier object\<close>

datatype column = Category | SubCategory

definition column_name :: "column \<Rightarrow> string" where
  "column_name c = (case c of Category \<Rightarrow> ''category'' | SubCategory \<Rightarrow> ''sub_category'')"

text \<open>
  A fitted model of the modelling library is known to the classifier through the two
  calls it makes: \<^verbatim>\<open>predict_proba(X)\<close>, one probability row per text, and
  \<^verbatim>\<open>predict(X)\<close> (the field \<open>model_predict\<close>), one class id per text; either may
  raise.
\<close>

record model =
  predict_proba :: "string list \<Rightarrow> exn + rat list list"
  model_predict :: "string list \<Rightarrow> exn + int list"

text \<open>
  The attributes of \<^verbatim>\<open>self\<close>.  \<open>word_tokenize\<close> (the module-level NLTK function) and
  \<open>lemmatize\<close> (\<^verbatim>\<open>self.lemmatizer.lemmatize\<close>) are library calls and may raise.  A label
  encoder is its \<^verbatim>\<open>classes_\<close> array, absent (\<open>None\<close>) until it is fitted.
\<close>

record classifier =
  word_tokenize :: "string \<Rightarrow> exn + string list"
  lemmatize :: "string \<Rightarrow> exn + string"
  stop_words :: "string list"
  label_encoders :: "column \<Rightarrow> string list option"
  models :: "column \<Rightarrow> model option"
  min_samples_per_class :: int

text \<open>
  \<^verbatim>\<open>__init__\<close>: the English stopwords plus the domain words, unfitted encoders, no
  models.  The source's default for \<^verbatim>\<open>min_samples_per_class\<close> is 2.
\<close>

definition init ::
  "(string \<Rightarrow> exn + string list) \<Rightarrow> (string \<Rightarrow> exn + string) \<Rightarrow> string list \<Rightarrow> int \<Rightarrow> classifier"
where
  "init tokenizer lemmatizer english n =
     \<lparr> word_tokenize = tokenizer,
       lemmatize = lemmatizer,
       stop_words = english @ [''please'', ''help'', ''thank'', ''thanks'', ''sir'', ''madam'', ''kindly''],
       label_encoders = (\<lambda>c. None),
       models = (\<lambda>c. None),
       min_samples_per_class = n \<rparr>"

section \<open>Text normalizer\<close>

text \<open>
  The comprehension
  \<^verbatim>\<open>[self.lemmatizer.lemmatize(token) for token in tokens
     if token not in self.stop_words and len(token) > 2]\<close>,
  left to right; the first call that raises ends it.
\<close>

fun lemmatize_tokens :: "classifier \<Rightarrow> string list \<Rightarrow> exn + string list" where
  "lemmatize_tokens self [] = Inr []"
| "lemmatize_tokens self (token # tokens) =
     (if token \<notin> set (stop_words self) \<and> length token > 2 then
        (case lemmatize self token of
           Inl e \<Rightarrow> Inl e
         | Inr l \<Rightarrow>
             (case lemmatize_tokens self tokens of
                Inl e \<Rightarrow> Inl e
              | Inr ls \<Rightarrow> Inr (l # ls)))
      else lemmatize_tokens self tokens)"

definition bigrams :: "string list \<Rightarrow> string list" where
  "bigrams tokens =
     map (\<lambda>i. tokens ! i @ ''_'' @ tokens ! (i + 1)) [0 ..< length tokens - 1]"

definition trigrams :: "string list \<Rightarrow> string list" where
  "trigrams tokens =
     map (\<lambda>i. tokens ! i @ ''_'' @ tokens ! (i + 1) @ ''_'' @ tokens ! (i + 2))
       [0 ..< length tokens - 2]"

text \<open>
  The first \<^verbatim>\<open>preprocess_text\<close> of the class body (notebook lines 65-113): the list
  \<^verbatim>\<open>tokens\<close> its \<^verbatim>\<open>try\<close> block builds, the rest of the block, and the method with its
  handler.
\<close>

definition tokens_1st :: "classifier \<Rightarrow> pytext \<Rightarrow> exn + string list" where
  "tokens_1st self text =
     (case py_str text of
        Inl e \<Rightarrow> Inl e
      | Inr s \<Rightarrow>
          (let t1 = lower s;
               t2 = re_sub url_rx [] 0 t1;
               t3 = re_sub email_rx [] 0 t2;
               t4 = re_sub phone_rx [] 0 t3;
               t5 = re_sub spaces_rx '' '' 0 t4;
               t6 = re_sub not_kept_punct_rx [] 0 t5
           in case word_tokenize self t6 of
                Inl e \<Rightarrow> Inl e
              | Inr toks \<Rightarrow> lemmatize_tokens self toks))"

definition preprocess_try_1st :: "classifier \<Rightarrow> pytext \<Rightarrow> exn + string" where
  "preprocess_try_1st self text =
     (case tokens_1st self text of
        Inl e \<Rightarrow> Inl e
      | Inr tokens \<Rightarrow>
          (let processed_text = join '' '' (tokens @ bigrams tokens @ trigrams tokens)
           in if length (split processed_text) < 3 then Inr []
              else Inr processed_text))"

definition preprocess_text_1st :: "classifier \<Rightarrow> pytext \<Rightarrow> string" where
  "preprocess_text_1st self text =
     (case preprocess_try_1st self text of Inl e \<Rightarrow> [] | Inr s \<Rightarrow> s)"

text \<open>
  The second \<^verbatim>\<open>preprocess_text\<close> of the class body (notebook lines 199-226), in the
  same three parts.
\<close>

definition tokens_2nd :: "classifier \<Rightarrow> pytext \<Rightarrow> exn + string list" where
  "tokens_2nd self text =
     (case py_str text of
        Inl e \<Rightarrow> Inl e
      | Inr s \<Rightarrow>
          (let t1 = lower s;
               t2 = re_sub not_letter_rx [] 0 t1
           in case word_tokenize self t2 of
                Inl e \<Rightarrow> Inl e
              | Inr toks \<Rightarrow> lemmatize_tokens self toks))"

definition preprocess_try_2nd :: "classifier \<Rightarrow> pytext \<Rightarrow> exn + string" where
  "preprocess_try_2nd self text =
     (case tokens_2nd self text of
        Inl e \<Rightarrow> Inl e
      | Inr tokens \<Rightarrow> Inr (join '' '' tokens))"

definition preprocess_text_2nd :: "classifier \<Rightarrow> pytext \<Rightarrow> string" where
  "preprocess_text_2nd self text =
     (case preprocess_try_2nd self text of Inl e \<Rightarrow> [] | Inr s \<Rightarrow> s)"

text \<open>
  A class body is executed top to bottom and each \<^verbatim>\<open>def\<close> assigns its name in the
  class namespace, so a later \<^verbatim>\<open>def\<close> of a name replaces the earlier one.  The two
  \<^verbatim>\<open>def preprocess_text\<close> statements in source order, the namespace they leave, and the
  method that \<^verbatim>\<open>self.preprocess_text\<close> resolves to.
\<close>

definition class_body :: "(string \<times> (classifier \<Rightarrow> pytext \<Rightarrow> string)) list" where
  "class_body =
     [(''preprocess_text'', preprocess_text_1st),
      (''preprocess_text'', preprocess_text_2nd)]"

definition class_namespace :: "(string \<times> (classifier \<Rightarrow> pytext \<Rightarrow> string)) list" where
  "class_namespace = fold (\<lambda>(name, f) ns. AList.update name f ns) class_body []"

definition preprocess_text :: "classifier \<Rightarrow> pytext \<Rightarrow> string" where
  "preprocess_text = the (map_of class_namespace ''preprocess_text'')"


section \<open>Datasets and the rare-class filter\<close>

text \<open>
  A row of the data frame.  The three input columns are always there, the two labels
  as strings; the columns that \<^verbatim>\<open>prepare_data\<close> adds are \<open>None\<close> until they are
  assigned.
\<close>

record row =
  crimeaditionalinfo :: pytext
  category :: string
  sub_category :: string
  processed_text :: "string option"
  category_encoded :: "int option"
  sub_category_encoded :: "int option"

definition raw_row :: "pytext \<Rightarrow> string \<Rightarrow> string \<Rightarrow> row" where
  "raw_row t c s =
     \<lparr> crimeaditionalinfo = t, category = c, sub_category = s,
       processed_text = None, category_encoded = None, sub_category_encoded = None \<rparr>"

text \<open>\<^verbatim>\<open>df[column]\<close> and \<^verbatim>\<open>unknown_row[column] = v\<close> for a label column.\<close>

definition label :: "column \<Rightarrow> row \<Rightarrow> string" where
  "label column r = (case column of Category \<Rightarrow> category r | SubCategory \<Rightarrow> sub_category r)"

definition set_label :: "column \<Rightarrow> string \<Rightarrow> row \<Rightarrow> row" where
  "set_label column v r =
     (case column of Category \<Rightarrow> r\<lparr>category := v\<rparr> | SubCategory \<Rightarrow> r\<lparr>sub_category := v\<rparr>)"

definition set_encoded :: "column \<Rightarrow> int \<Rightarrow> row \<Rightarrow> row" where
  "set_encoded column i r =
     (case column of Category \<Rightarrow> r\<lparr>category_encoded := Some i\<rparr>
      | SubCategory \<Rightarrow> r\<lparr>sub_category_encoded := Some i\<rparr>)"

text \<open>
  \<^verbatim>\<open>series.value_counts()\<close>: each distinct value with its number of occurrences.  (pandas
  lists them by falling count; the code only tests counts and membership.)
\<close>

definition value_counts :: "string list \<Rightarrow> (string \<times> nat) list" where
  "value_counts xs = map (\<lambda>v. (v, count_list xs v)) (remdups xs)"

text \<open>\<^verbatim>\<open>counts[counts >= n].index\<close>\<close>

definition index_at_least :: "int \<Rightarrow> (string \<times> nat) list \<Rightarrow> string list" where
  "index_at_least n counts = map fst (filter (\<lambda>(v, k). n \<le> int k) counts)"

text \<open>
  The body of the loop of \<^verbatim>\<open>filter_rare_classes\<close>:
  \<^verbatim>\<open>counts = df[column].value_counts()\<close>,
  \<^verbatim>\<open>valid_classes = counts[counts >= self.min_samples_per_class].index\<close>,
  \<^verbatim>\<open>df = df[df[column].isin(valid_classes)]\<close>.
\<close>

definition keep_valid_classes :: "int \<Rightarrow> column \<Rightarrow> row list \<Rightarrow> row list" where
  "keep_valid_classes n column df =
     (let counts = value_counts (map (label column) df);
          valid_classes = index_at_least n counts
      in filter (\<lambda>r. label column r \<in> set valid_classes) df)"

text \<open>
  The loop \<^verbatim>\<open>for column in ['category', 'sub_category']\<close> of \<^verbatim>\<open>filter_rare_classes\<close>,
  and the method: it raises when the loop leaves no row.
\<close>

definition rare_classes_removed :: "int \<Rightarrow> row list \<Rightarrow> row list" where
  "rare_classes_removed n df = fold (keep_valid_classes n) [Category, SubCategory] df"

definition filter_rare_classes :: "classifier \<Rightarrow> row list \<Rightarrow> exn + row list" where
  "filter_rare_classes self df =
     (let df' = rare_classes_removed (min_samples_per_class self) df;
          filtered_len = length df'
      in if filtered_len = 0
         then Inl (ValueError ''No samples remaining after filtering rare classes. Consider lowering min_samples_per_class.'')
         else Inr df')"

text \<open>
  The cell "Removing rare classes..." of \<^verbatim>\<open>src/unnamed/part_000\<close>: both counts are
  taken on \<^verbatim>\<open>combined_df\<close> and a row is kept when both of its labels are valid.
\<close>

definition min_instances :: int where
  "min_instances = 5"

definition filtered_df :: "row list \<Rightarrow> row list" where
  "filtered_df combined_df =
     (let category_counts = value_counts (map category combined_df);
          sub_category_counts = value_counts (map sub_category combined_df);
          valid_categories = index_at_least min_instances category_counts;
          valid_sub_categories = index_at_least min_instances sub_category_counts
      in filter (\<lambda>r. category r \<in> set valid_categories \<and>
                      sub_category r \<in> set valid_sub_categories) combined_df)"

text \<open>The support of a label value in a column of a dataset.\<close>

definition support :: "column \<Rightarrow> row list \<Rightarrow> string \<Rightarrow> nat" where
  "support column df v = count_list (map (label column) df) v"

section \<open>Label encoder\<close>

text \<open>
  Modelled from the spec: the label encoder is the class \<^verbatim>\<open>LabelEncoder\<close> of the
  modelling library, of which the sources hold only the calls \<^verbatim>\<open>fit\<close>, \<^verbatim>\<open>transform\<close>,
  \<^verbatim>\<open>fit_transform\<close> and the attribute \<^verbatim>\<open>classes_\<close>.  Section 4.3 of the spec: fitting
  assigns each class name a unique id 0..n-1 in sorted order, transform maps a name to
  its id and fails on an unseen name, the inverse maps an id to its name and fails on
  an id out of range.  An encoder is its array \<^verbatim>\<open>classes_\<close>: the id of a name is its
  position.
\<close>

definition fit :: "string list \<Rightarrow> string list" where
  "fit names = sort (remdups names)"

fun index_of :: "string list \<Rightarrow> string \<Rightarrow> nat option" where
  "index_of [] name = None"
| "index_of (c # cs) name =
     (if c = name then Some 0 else map_option Suc (index_of cs name))"

definition encode :: "string list \<Rightarrow> string \<Rightarrow> exn + int" where
  "encode classes name =
     (case index_of classes name of
        None \<Rightarrow> Inl (ValueError ''y contains previously unseen labels'')
      | Some i \<Rightarrow> Inr (int i))"

definition decode :: "string list \<Rightarrow> int \<Rightarrow> exn + string" where
  "decode classes i =
     (if 0 \<le> i \<and> i < int (length classes) then Inr (classes ! nat i)
      else Inl (ValueError ''y contains previously unseen labels''))"

fun transform :: "string list \<Rightarrow> string list \<Rightarrow> exn + int list" where
  "transform classes [] = Inr []"
| "transform classes (y # ys) =
     (case encode classes y of
        Inl e \<Rightarrow> Inl e
      | Inr i \<Rightarrow> (case transform classes ys of Inl e \<Rightarrow> Inl e | Inr is \<Rightarrow> Inr (i # is)))"

section \<open>Data preparation\<close>

text \<open>
  The body of the first loop of \<^verbatim>\<open>CybercrimeClassifier.prepare_data\<close>: when
  \<^verbatim>\<open>'Unknown'\<close> is not among the values of the column, a copy of row 0 with that label
  set to \<^verbatim>\<open>'Unknown'\<close> and the text \<^verbatim>\<open>'unknown case'\<close> is appended.
\<close>

definition unknown_row :: "column \<Rightarrow> row \<Rightarrow> row" where
  "unknown_row column r0 =
     (set_label column ''Unknown'' r0)\<lparr>crimeaditionalinfo := PyStr ''unknown case''\<rparr>"

definition add_unknown_row :: "column \<Rightarrow> row list \<Rightarrow> exn + row list" where
  "add_unknown_row column df =
     (if ''Unknown'' \<notin> set (map (label column) df) then
        (case py_index df 0 of
           Inl e \<Rightarrow> Inl e
         | Inr r0 \<Rightarrow> Inr (df @ [unknown_row column r0]))
      else Inr df)"

definition add_unknown_rows :: "row list \<Rightarrow> exn + row list" where
  "add_unknown_rows df =
     (case add_unknown_row Category df of
        Inl e \<Rightarrow> Inl e
      | Inr df' \<Rightarrow> add_unknown_row SubCategory df')"

text \<open>
  The last loop of \<^verbatim>\<open>CybercrimeClassifier.prepare_data\<close>:
  \<^verbatim>\<open>df[f'{column}_encoded'] = self.label_encoders[column].fit_transform(df[column])\<close>.
\<close>

definition encode_column ::
  "column \<Rightarrow> classifier \<times> row list \<Rightarrow> exn + classifier \<times> row list" where
  "encode_column column st =
     (let self = fst st; df = snd st;
          classes = fit (map (label column) df)
      in case transform classes (map (label column) df) of
           Inl e \<Rightarrow> Inl e
         | Inr ids \<Rightarrow>
             Inr (self\<lparr>label_encoders := (label_encoders self)(column := Some classes)\<rparr>,
                  map (\<lambda>(r, i). set_encoded column i r) (zip df ids)))"

text \<open>
  \<^verbatim>\<open>CybercrimeClassifier.prepare_data\<close>; it returns the prepared data frame, and the
  object with its encoders fitted.  (\<^verbatim>\<open>analyze_class_distribution\<close> only prints.)
\<close>

definition prepare_data :: "classifier \<Rightarrow> row list \<Rightarrow> exn + classifier \<times> row list" where
  "prepare_data self df =
     (case add_unknown_rows df of
        Inl e \<Rightarrow> Inl e
      | Inr df1 \<Rightarrow>
          (case filter_rare_classes self df1 of
             Inl e \<Rightarrow> Inl e
           | Inr df2 \<Rightarrow>
               (let df3 = map (\<lambda>r. r\<lparr>processed_text :=
                                       Some (preprocess_text self (crimeaditionalinfo r))\<rparr>) df2;
                    df4 = filter (\<lambda>r. case processed_text r of None \<Rightarrow> False
                                       | Some p \<Rightarrow> length p > 0) df3
                in case encode_column Category (self, df4) of
                     Inl e \<Rightarrow> Inl e
                   | Inr st \<Rightarrow> encode_column SubCategory st)))"

text \<open>
  \<^verbatim>\<open>str(n)\<close> of an integer, as an f-string formats it: the decimal digits, with a
  minus sign before them when \<open>n\<close> is negative.
\<close>

function decimal :: "nat \<Rightarrow> string \<Rightarrow> string" where
  "decimal n acc =
     (if n div 10 = 0 then char_of (48 + n mod 10) # acc
      else decimal (n div 10) (char_of (48 + n mod 10) # acc))"
  by pat_completeness auto
termination
  by (relation "measure fst") auto

declare decimal.simps [simp del]

definition format_int :: "int \<Rightarrow> string" where
  "format_int n = (if n < 0 then CHR ''-'' # decimal (nat (- n)) [] else decimal (nat n) [])"

text \<open>
  \<^verbatim>\<open>DatasetAnalyzer.prepare_data\<close> (notebook lines 505-546).  The method reads
  \<^verbatim>\<open>self.preprocess_text\<close>, \<^verbatim>\<open>self.min_samples_per_class\<close> and \<^verbatim>\<open>self.label_encoders\<close>.
  The class \<^verbatim>\<open>DatasetAnalyzer\<close> defines none of them and has no \<^verbatim>\<open>__init__\<close>, so on an
  instance of its own class the first of these reads raises \<^verbatim>\<open>AttributeError\<close>; the
  body runs only for a \<^verbatim>\<open>self\<close> that has the classifier's attributes.  The object the
  method is called on is therefore one of the two.  Its handler logs and raises the
  exception again.  First the body of its loop.
\<close>

datatype receiver = AnalyzerInstance | ClassifierInstance classifier

definition analyzer_column ::
  "column \<Rightarrow> classifier \<times> row list \<Rightarrow> exn + classifier \<times> row list" where
  "analyzer_column column st =
     (let self = fst st; prepared_df = snd st;
          class_counts = value_counts (map (label column) prepared_df);
          valid_classes = index_at_least (min_samples_per_class self) class_counts
      in if length valid_classes = 0
         then Inl (ValueError (''No classes have the minimum required '' @
                               format_int (min_samples_per_class self) @ '' samples''))
         else
           (let prepared_df' = filter (\<lambda>r. label column r \<in> set valid_classes) prepared_df;
                classes = fit valid_classes
            in case transform classes (map (label column) prepared_df') of
                 Inl e \<Rightarrow> Inl e
               | Inr ids \<Rightarrow>
                   Inr (self\<lparr>label_encoders := (label_encoders self)(column := Some classes)\<rparr>,
                        map (\<lambda>(r, i). set_encoded column i r) (zip prepared_df' ids))))"

definition analyzer_prepare_data ::
  "receiver \<Rightarrow> row list \<Rightarrow> exn + classifier \<times> row list" where
  "analyzer_prepare_data obj df =
     (case obj of
        AnalyzerInstance \<Rightarrow> Inl AttributeError
      | ClassifierInstance self \<Rightarrow>
          (let prepared_df = map (\<lambda>r. r\<lparr>processed_text :=
                                          Some (preprocess_text self (crimeaditionalinfo r))\<rparr>) df;
               prepared_df' = filter (\<lambda>r. case processed_text r of None \<Rightarrow> False
                                           | Some p \<Rightarrow> length p > 0) prepared_df
           in case analyzer_column Category (self, prepared_df') of
                Inl e \<Rightarrow> Inl e
              | Inr st \<Rightarrow> analyzer_column SubCategory st))"

section \<open>Predictor\<close>

datatype pyval = PStr string | PFloat rat

type_synonym dict = "(string \<times> pyval) list"

text \<open>
  A result dictionary keeps its keys in insertion order; \<^verbatim>\<open>d[k] = v\<close> is
  \<open>AList.update k v d\<close> and \<^verbatim>\<open>d.update(e)\<close> assigns the items of \<open>e\<close> in turn.
\<close>

definition dict_update :: "dict \<Rightarrow> dict \<Rightarrow> dict" where
  "dict_update e d = fold (\<lambda>(k, v) acc. AList.update k v acc) e d"

text \<open>\<^verbatim>\<open>_get_unknown_prediction(column)\<close>; \<open>None\<close> is the call without argument.\<close>

definition get_unknown_prediction :: "column option \<Rightarrow> dict" where
  "get_unknown_prediction column =
     (case column of
        Some c \<Rightarrow>
          [(column_name c, PStr ''Unknown''),
           (column_name c @ ''_confidence'', PFloat 0)]
      | None \<Rightarrow>
          [(''category'', PStr ''Unknown''),
           (''category_confidence'', PFloat 0),
           (''sub_category'', PStr ''Unknown''),
           (''sub_category_confidence'', PFloat 0)])"

text \<open>
  The inner \<^verbatim>\<open>try\<close> block of \<^verbatim>\<open>predict\<close> for one column, on a model that is not
  \<^verbatim>\<open>None\<close>: it yields the label and the confidence that the block stores under the two
  keys of the column.  \<^verbatim>\<open>self.label_encoders[column].classes_\<close> raises
  \<^verbatim>\<open>AttributeError\<close> on an encoder that was never fitted; \<^verbatim>\<open>classes_[prediction]\<close> is
  array indexing.
\<close>

definition predict_column_try ::
  "classifier \<Rightarrow> column \<Rightarrow> model \<Rightarrow> string \<Rightarrow> exn + string \<times> rat" where
  "predict_column_try self column m text =
     (case predict_proba m [text] of
        Inl e \<Rightarrow> Inl e
      | Inr rows \<Rightarrow>
     (case py_index rows 0 of
        Inl e \<Rightarrow> Inl e
      | Inr probas \<Rightarrow>
     (case py_max probas of
        Inl e \<Rightarrow> Inl e
      | Inr max_proba \<Rightarrow>
     (case model_predict m [text] of
        Inl e \<Rightarrow> Inl e
      | Inr preds \<Rightarrow>
     (case py_index preds 0 of
        Inl e \<Rightarrow> Inl e
      | Inr prediction \<Rightarrow>
          (if max_proba < confidence_threshold then Inr (''Unknown'', 0)
           else
             (case label_encoders self column of
                None \<Rightarrow> Inl AttributeError
              | Some classes \<Rightarrow>
                  (case py_index classes prediction of
                     Inl e \<Rightarrow> Inl e
                   | Inr name \<Rightarrow> Inr (name, max_proba)))))))))"

text \<open>
  The loop \<^verbatim>\<open>for column in ['category', 'sub_category']\<close>: the check for an untrained
  model stands before the inner \<^verbatim>\<open>try\<close>; the block's outcome is stored in \<open>results\<close>,
  and the inner handler stores the Unknown entries of the column instead.
\<close>

fun predict_loop :: "classifier \<Rightarrow> string \<Rightarrow> column list \<Rightarrow> dict \<Rightarrow> exn + dict" where
  "predict_loop self text [] results = Inr results"
| "predict_loop self text (column # columns) results =
     (case models self column of
        None \<Rightarrow> Inl (ValueError (''Model for '' @ column_name column @ '' is not trained''))
      | Some m \<Rightarrow>
          (case predict_column_try self column m text of
             Inr (name, confidence) \<Rightarrow>
               predict_loop self text columns
                 (AList.update (column_name column @ ''_confidence'') (PFloat confidence)
                   (AList.update (column_name column) (PStr name) results))
           | Inl e \<Rightarrow>
               predict_loop self text columns
                 (dict_update (get_unknown_prediction (Some column)) results)))"

text \<open>The outer \<^verbatim>\<open>try\<close> block of \<^verbatim>\<open>predict\<close>, and \<^verbatim>\<open>predict\<close> with its handler.\<close>

definition predict_try :: "classifier \<Rightarrow> pytext \<Rightarrow> exn + dict" where
  "predict_try self text =
     (let processed_text = preprocess_text self text
      in if processed_text = [] then Inr (get_unknown_prediction None)
         else predict_loop self processed_text [Category, SubCategory] [])"

definition predict :: "classifier \<Rightarrow> pytext \<Rightarrow> dict" where
  "predict self text =
     (case predict_try self text of
        Inl e \<Rightarrow> get_unknown_prediction None
      | Inr results \<Rightarrow> results)"


text \<open>
  The two entries that one column contributes to the result, given the outcome of its
  inner \<^verbatim>\<open>try\<close> block, and the two entries of a column read back from a result.
\<close>

definition column_entries :: "column \<Rightarrow> exn + string \<times> rat \<Rightarrow> dict" where
  "column_entries c outcome =
     (case outcome of
        Inl e \<Rightarrow> get_unknown_prediction (Some c)
      | Inr (name, confidence) \<Rightarrow>
          [(column_name c, PStr name), (column_name c @ ''_confidence'', PFloat confidence)])"

definition result_label :: "column \<Rightarrow> dict \<Rightarrow> pyval option" where
  "result_label c d = map_of d (column_name c)"

definition result_confidence :: "column \<Rightarrow> dict \<Rightarrow> pyval option" where
  "result_confidence c d = map_of d (column_name c @ ''_confidence'')"

section \<open>Example objects\<close>

text \<open>
  Concrete library functions, models and classifiers on which the theorems below are
  evaluated.  The tokenizer splits at whitespace and the lemmatizer returns its word,
  as the NLTK functions do on the lower-case words of the example texts.
\<close>

definition example_tokenize :: "string \<Rightarrow> exn + string list" where
  "example_tokenize s = Inr (split s)"

definition example_lemmatize :: "string \<Rightarrow> exn + string" where
  "example_lemmatize w = Inr w"

definition example_classifier :: classifier where
  "example_classifier = init example_tokenize example_lemmatize [''the'', ''was'', ''and''] 2"

definition confident_model :: model where
  "confident_model =
     \<lparr> predict_proba = (\<lambda>X. Inr (map (\<lambda>x. [7 / 8, 1 / 8]) X)),
       model_predict = (\<lambda>X. Inr (map (\<lambda>x. 0) X)) \<rparr>"


definition failing_model :: model where
  "failing_model =
     \<lparr> predict_proba = (\<lambda>X. Inl (LibraryError ''NotFittedError'')),
       model_predict = (\<lambda>X. Inl (LibraryError ''NotFittedError'')) \<rparr>"

definition example_encoders :: "column \<Rightarrow> string list option" where
  "example_encoders c =
     (case c of Category \<Rightarrow> Some [''Fraud'', ''Spam'']
      | SubCategory \<Rightarrow> Some [''Card'', ''Lottery'', ''Phishing'', ''UPI''])"


definition half_trained_classifier :: classifier where
  "half_trained_classifier =
     example_classifier
       \<lparr> label_encoders := example_encoders,
         models := (\<lambda>c. case c of Category \<Rightarrow> Some confident_model
                         | SubCategory \<Rightarrow> None) \<rparr>"

definition faulty_classifier :: classifier where
  "faulty_classifier =
     example_classifier
       \<lparr> label_encoders := example_encoders,
         models := (\<lambda>c. case c of Category \<Rightarrow> Some failing_model
                         | SubCategory \<Rightarrow> Some confident_model) \<rparr>"


definition example_names :: "string list" where
  "example_names = [''Spam'', ''Fraud'', ''Spam'']"

definition example_report :: string where
  "example_report = ''Visit http://scam.example today, call 987-654-3210 or mail bob@x.org, lost money''"

definition example_dataset :: "row list" where
  "example_dataset =
     [raw_row (PyStr ''Money lost'') ''Fraud'' ''UPI'',
      raw_row (PyStr ''Card blocked'') ''Fraud'' ''Card'',
      raw_row (PyStr ''Lottery message'') ''Spam'' ''UPI'',
      raw_row (PyStr ''Prize message'') ''Spam'' ''UPI'']"

definition digits_dataset :: "row list" where
  "digits_dataset =
     [raw_row (PyStr ''Money lost'') ''Fraud'' ''UPI'',
      raw_row (PyStr ''12345'') ''Fraud'' ''UPI'']"

definition combined_example :: "row list" where
  "combined_example =
     replicate 4 (raw_row (PyStr ''Money lost'') ''Fraud'' ''UPI'') @
     [raw_row (PyStr ''Card blocked'') ''Fraud'' ''Card''] @
     replicate 5 (raw_row (PyStr ''Prize message'') ''Spam'' ''UPI'')"

definition filtered_example :: "row list" where
  "filtered_example =
     [raw_row (PyStr ''Money lost'') ''Fraud'' ''UPI'',
      raw_row (PyStr ''Lottery message'') ''Spam'' ''UPI'',
      raw_row (PyStr ''Prize message'') ''Spam'' ''UPI'']"

section \<open>Properties of the predictor\<close>

lemma predict_loop_both:
  "predict_loop self p [Category, SubCategory] [] =
     (case models self Category of
        None \<Rightarrow> Inl (ValueError ''Model for category is not trained'')
      | Some mc \<Rightarrow>
          (case models self SubCategory of
             None \<Rightarrow> Inl (ValueError ''Model for sub_category is not trained'')
           | Some ms \<Rightarrow>
               Inr (column_entries Category (predict_column_try self Category mc p) @
                    column_entries SubCategory (predict_column_try self SubCategory ms p))))"
  by (simp add: column_entries_def column_name_def get_unknown_prediction_def dict_update_def
           split: option.split sum.split prod.split)







lemma column_entries_shape:
  "\<exists>name cf. column_entries c out = [(column_name c, PStr name), (column_name c @ ''_confidence'', PFloat cf)]
      \<and> (out = Inr (name, cf) \<or> ((\<exists>e. out = Inl e) \<and> name = ''Unknown'' \<and> cf = 0))"
  by (cases out) (auto simp: column_entries_def get_unknown_prediction_def)

lemma predict_cases:
  "predict self text =
     (if preprocess_text self text = [] then get_unknown_prediction None
      else case models self Category of
        None \<Rightarrow> get_unknown_prediction None
      | Some mc \<Rightarrow>
          (case models self SubCategory of
             None \<Rightarrow> get_unknown_prediction None
           | Some ms \<Rightarrow>
               column_entries Category (predict_column_try self Category mc (preprocess_text self text)) @
               column_entries SubCategory (predict_column_try self SubCategory ms (preprocess_text self text))))"
  by (simp add: predict_def predict_try_def Let_def predict_loop_both del: predict_loop.simps split: option.split)

lemma entries_lookup:
  "\<exists>name cf.
     result_label c (column_entries Category a @ column_entries SubCategory b) = Some (PStr name) \<and>
     result_confidence c (column_entries Category a @ column_entries SubCategory b) = Some (PFloat cf) \<and>
     ((case c of Category \<Rightarrow> a | SubCategory \<Rightarrow> b) = Inr (name, cf) \<or>
      ((\<exists>e. (case c of Category \<Rightarrow> a | SubCategory \<Rightarrow> b) = Inl e) \<and> name = ''Unknown'' \<and> cf = 0))"
  using column_entries_shape[of Category a] column_entries_shape[of SubCategory b]
  by (cases c) (auto simp: column_name_def result_label_def result_confidence_def)


lemma predict_column_result:
  assumes "preprocess_text self text = p" and "p \<noteq> []"
    and "\<forall>c'. models self c' \<noteq> None" and "models self c = Some m"
  shows "(\<exists>e. predict_column_try self c m p = Inl e) \<longrightarrow>
           result_label c (predict self text) = Some (PStr ''Unknown'') \<and>
           result_confidence c (predict self text) = Some (PFloat 0)"
    and "predict_column_try self c m p = Inr (name, cf) \<longrightarrow>
           result_label c (predict self text) = Some (PStr name) \<and>
           result_confidence c (predict self text) = Some (PFloat cf)"
proof -
  from assms(3) obtain mc ms where mc: "models self Category = Some mc"
    and ms: "models self SubCategory = Some ms"
    by (metis option.exhaust)
  define a where "a = predict_column_try self Category mc p"
  define b where "b = predict_column_try self SubCategory ms p"
  have m: "m = (case c of Category \<Rightarrow> mc | SubCategory \<Rightarrow> ms)"
    using mc ms assms(4) by (cases c) simp_all
  have out: "(case c of Category \<Rightarrow> a | SubCategory \<Rightarrow> b) = predict_column_try self c m p"
    by (cases c) (simp_all add: a_def b_def m)
  have pr: "predict self text = column_entries Category a @ column_entries SubCategory b"
    using assms(1,2) mc ms by (simp add: predict_cases a_def b_def)
  from entries_lookup[of c a b] obtain n k where
    "result_label c (predict self text) = Some (PStr n)"
    "result_confidence c (predict self text) = Some (PFloat k)"
    "predict_column_try self c m p = Inr (n, k) \<or>
        ((\<exists>e. predict_column_try self c m p = Inl e) \<and> n = ''Unknown'' \<and> k = 0)"
    unfolding pr out by blast
  then show "(\<exists>e. predict_column_try self c m p = Inl e) \<longrightarrow>
           result_label c (predict self text) = Some (PStr ''Unknown'') \<and>
           result_confidence c (predict self text) = Some (PFloat 0)"
    and "predict_column_try self c m p = Inr (name, cf) \<longrightarrow>
           result_label c (predict self text) = Some (PStr name) \<and>
           result_confidence c (predict self text) = Some (PFloat cf)"
    by auto
qed




text \<open>
  C5, as the code has it.  When both models are there, each column's two entries
  depend on the outcome of that column's own inner \<^verbatim>\<open>try\<close> block only: an exception
  raised inside it is replaced by the Unknown entries of that column, and the other
  column's entries are what its own block yields.  (The check for an untrained model
  stands outside the inner \<^verbatim>\<open>try\<close> and is not covered.)
\<close>

theorem predict_column_failure_isolated:
  assumes "models self Category = Some mc" and "models self SubCategory = Some ms"
    and "preprocess_text self text = p" and "p \<noteq> []"
  shows "predict self text =
           column_entries Category (predict_column_try self Category mc p) @
           column_entries SubCategory (predict_column_try self SubCategory ms p) \<and>
         (\<forall>c m. models self c = Some m \<longrightarrow>
            ((\<exists>e. predict_column_try self c m p = Inl e) \<longrightarrow>
               result_label c (predict self text) = Some (PStr ''Unknown'') \<and>
               result_confidence c (predict self text) = Some (PFloat 0)) \<and>
            (\<forall>name cf. predict_column_try self c m p = Inr (name, cf) \<longrightarrow>
               result_label c (predict self text) = Some (PStr name) \<and>
               result_confidence c (predict self text) = Some (PFloat cf)))"
proof (intro conjI allI impI)
  show "predict self text =
           column_entries Category (predict_column_try self Category mc p) @
           column_entries SubCategory (predict_column_try self SubCategory ms p)"
    using assms by (simp add: predict_cases)
next
  have all: "\<forall>c'. models self c' \<noteq> None"
  proof
    fix c' show "models self c' \<noteq> None" using assms(1,2) by (cases c') simp_all
  qed
  fix c m
  assume m: "models self c = Some m"
  note r = predict_column_result[OF assms(3,4) all m]
  { assume "\<exists>e. predict_column_try self c m p = Inl e"
    with r(1) show "result_label c (predict self text) = Some (PStr ''Unknown'')"
      and "result_confidence c (predict self text) = Some (PFloat 0)"
      by simp_all }
  { fix name cf
    assume "predict_column_try self c m p = Inr (name, cf)"
    with r(2)[of name cf] show "result_label c (predict self text) = Some (PStr name)"
      and "result_confidence c (predict self text) = Some (PFloat cf)"
      by simp_all }
qed

theorem predict_column_failure_isolated_witness:
  "predict faulty_classifier (PyStr ''Money lost'') =
     [(''category'', PStr ''Unknown''), (''category_confidence'', PFloat 0),
      (''sub_category'', PStr ''Card''), (''sub_category_confidence'', PFloat (7 / 8))]"
proof -
  have a: "models faulty_classifier Category = Some failing_model"
    and b: "models faulty_classifier SubCategory = Some confident_model"
    by (simp_all add: faulty_classifier_def)
  have p: "preprocess_text faulty_classifier (PyStr ''Money lost'') = ''money lost''"
    by code_simp
  have ne: "''money lost'' \<noteq> []" by simp
  have c: "column_entries Category (predict_column_try faulty_classifier Category failing_model ''money lost'')
            = [(''category'', PStr ''Unknown''), (''category_confidence'', PFloat 0)]"
    by code_simp
  have d: "column_entries SubCategory (predict_column_try faulty_classifier SubCategory confident_model ''money lost'')
            = [(''sub_category'', PStr ''Card''), (''sub_category_confidence'', PFloat (7 / 8))]"
    by code_simp
  show ?thesis
    using predict_column_failure_isolated[OF a b p ne, THEN conjunct1] c d by simp
qed

text \<open>
  The claim C5 as stated fails when the exception is the one raised for an untrained
  model: here the category model is fitted and its block yields \<^verbatim>\<open>"Fraud"\<close> with
  confidence 0.875, the sub-category model is \<^verbatim>\<open>None\<close>, and the call returns
  \<^verbatim>\<open>"Unknown"\<close> for the category as well.
\<close>

theorem untrained_column_aborts_other:
  "models half_trained_classifier Category = Some confident_model \<and>
   predict_column_try half_trained_classifier Category confident_model ''money lost'' = Inr (''Fraud'', 7 / 8) \<and>
   models half_trained_classifier SubCategory = None \<and>
   preprocess_text half_trained_classifier (PyStr ''Money lost'') = ''money lost'' \<and>
   predict half_trained_classifier (PyStr ''Money lost'') = get_unknown_prediction None \<and>
   result_label Category (predict half_trained_classifier (PyStr ''Money lost'')) = Some (PStr ''Unknown'')"
proof -
  have a: "models half_trained_classifier Category = Some confident_model"
    and b: "models half_trained_classifier SubCategory = None"
    by (simp_all add: half_trained_classifier_def)
  have c: "predict_column_try half_trained_classifier Category confident_model ''money lost'' = Inr (''Fraud'', 7 / 8)"
    by code_simp
  have d: "preprocess_text half_trained_classifier (PyStr ''Money lost'') = ''money lost''"
    by code_simp
  have e: "predict half_trained_classifier (PyStr ''Money lost'') = get_unknown_prediction None"
    by code_simp
  have f: "result_label Category (predict half_trained_classifier (PyStr ''Money lost'')) = Some (PStr ''Unknown'')"
    by code_simp
  show ?thesis using a b c d e f by blast
qed

text \<open>
  C7.  For every classifier state and every input, \<^verbatim>\<open>predict\<close> returns a dictionary
  with exactly the four entries category, category_confidence, sub_category,
  sub_category_confidence, the labels strings and the confidences floats; every
  exception of its \<^verbatim>\<open>try\<close> block ends in the handler that returns such a dictionary.
\<close>

theorem predict_well_formed:
  "\<exists>l1 c1 l2 c2. predict self text =
     [(''category'', PStr l1), (''category_confidence'', PFloat c1),
      (''sub_category'', PStr l2), (''sub_category_confidence'', PFloat c2)]"
proof -
  have unk: "\<exists>l1 c1 l2 c2. get_unknown_prediction None =
     [(''category'', PStr l1), (''category_confidence'', PFloat c1),
      (''sub_category'', PStr l2), (''sub_category_confidence'', PFloat c2)]"
    by (simp add: get_unknown_prediction_def)
  have both: "\<exists>l1 c1 l2 c2. column_entries Category a @ column_entries SubCategory b =
     [(''category'', PStr l1), (''category_confidence'', PFloat c1),
      (''sub_category'', PStr l2), (''sub_category_confidence'', PFloat c2)]" for a b
    using column_entries_shape[of Category a] column_entries_shape[of SubCategory b]
    by (auto simp: column_name_def)
  show ?thesis
    unfolding predict_cases using unk both by (simp split: option.split)
qed

text \<open>
  C10.  When the model of either column is \<^verbatim>\<open>None\<close>, whatever the other model is,
  \<^verbatim>\<open>predict\<close> returns the dictionary with all four entries in which both labels are
  \<^verbatim>\<open>"Unknown"\<close> and both confidences are 0.0; no entry of a column that was predicted
  before the untrained one remains.  When the normalized text is not empty, it is the
  loop over the columns that ends with the error
  \<^verbatim>\<open>"Model for <column> is not trained"\<close> of an untrained column: the check stands
  outside the inner handler, so the error leaves the \<^verbatim>\<open>try\<close> block of \<^verbatim>\<open>predict\<close>, whose
  outer handler returns that dictionary.
\<close>

theorem predict_untrained:
  assumes "models self Category = None \<or> models self SubCategory = None"
  shows "predict self text =
           [(''category'', PStr ''Unknown''), (''category_confidence'', PFloat 0),
            (''sub_category'', PStr ''Unknown''), (''sub_category_confidence'', PFloat 0)] \<and>
         (\<forall>c. result_label c (predict self text) = Some (PStr ''Unknown'') \<and>
              result_confidence c (predict self text) = Some (PFloat 0)) \<and>
         (preprocess_text self text \<noteq> [] \<longrightarrow>
            (\<exists>c. models self c = None \<and>
                 predict_loop self (preprocess_text self text) [Category, SubCategory] [] =
                   Inl (ValueError (''Model for '' @ column_name c @ '' is not trained'')) \<and>
                 predict_try self text =
                   Inl (ValueError (''Model for '' @ column_name c @ '' is not trained''))))"
proof (intro conjI allI impI)
  show p: "predict self text =
           [(''category'', PStr ''Unknown''), (''category_confidence'', PFloat 0),
            (''sub_category'', PStr ''Unknown''), (''sub_category_confidence'', PFloat 0)]"
    using assms by (auto simp: predict_cases get_unknown_prediction_def split: option.split)
  fix c
  show "result_label c (predict self text) = Some (PStr ''Unknown'')"
    unfolding p by (cases c) (simp_all add: result_label_def column_name_def)
  show "result_confidence c (predict self text) = Some (PFloat 0)"
    unfolding p by (cases c) (simp_all add: result_confidence_def column_name_def)
next
  assume ne: "preprocess_text self text \<noteq> []"
  have t: "predict_try self text =
             predict_loop self (preprocess_text self text) [Category, SubCategory] []"
    using ne by (simp add: predict_try_def Let_def)
  show "\<exists>c. models self c = None \<and>
            predict_loop self (preprocess_text self text) [Category, SubCategory] [] =
              Inl (ValueError (''Model for '' @ column_name c @ '' is not trained'')) \<and>
            predict_try self text =
              Inl (ValueError (''Model for '' @ column_name c @ '' is not trained''))"
  proof (cases "models self Category")
    case None
    then have "predict_loop self (preprocess_text self text) [Category, SubCategory] [] =
                 Inl (ValueError (''Model for '' @ column_name Category @ '' is not trained''))"
      by simp
    with None t show ?thesis by metis
  next
    case (Some mc)
    with assms have n: "models self SubCategory = None" by simp
    then have "predict_loop self (preprocess_text self text) [Category, SubCategory] [] =
                 Inl (ValueError (''Model for '' @ column_name SubCategory @ '' is not trained''))"
      using Some by (simp split: sum.split prod.split)
    with n t show ?thesis by metis
  qed
qed

theorem predict_untrained_witness:
  "(models half_trained_classifier Category = None \<or> models half_trained_classifier SubCategory = None) \<and>
   models half_trained_classifier Category = Some confident_model \<and>
   predict_column_try half_trained_classifier Category confident_model
     (preprocess_text half_trained_classifier (PyStr ''Money lost'')) = Inr (''Fraud'', 7 / 8) \<and>
   predict half_trained_classifier (PyStr ''Money lost'') =
     [(''category'', PStr ''Unknown''), (''category_confidence'', PFloat 0),
      (''sub_category'', PStr ''Unknown''), (''sub_category_confidence'', PFloat 0)] \<and>
   predict_try half_trained_classifier (PyStr ''Money lost'') =
     Inl (ValueError ''Model for sub_category is not trained'')"
proof -
  have h: "models half_trained_classifier Category = None \<or> models half_trained_classifier SubCategory = None"
    by (simp add: half_trained_classifier_def)
  have m: "models half_trained_classifier Category = Some confident_model"
    by (simp add: half_trained_classifier_def)
  have b: "predict_column_try half_trained_classifier Category confident_model
     (preprocess_text half_trained_classifier (PyStr ''Money lost'')) = Inr (''Fraud'', 7 / 8)"
    by code_simp
  have ne: "preprocess_text half_trained_classifier (PyStr ''Money lost'') \<noteq> []"
    by code_simp
  note T = predict_untrained[OF h, of "PyStr ''Money lost''"]
  note u = T[THEN conjunct1]
  from T[THEN conjunct2, THEN conjunct2, rule_format, OF ne]
  obtain c where c: "models half_trained_classifier c = None"
    and t: "predict_try half_trained_classifier (PyStr ''Money lost'') =
              Inl (ValueError (''Model for '' @ column_name c @ '' is not trained''))"
    by blast
  from c have "c = SubCategory"
    by (cases c) (simp_all add: half_trained_classifier_def)
  with t have v: "predict_try half_trained_classifier (PyStr ''Money lost'') =
     Inl (ValueError ''Model for sub_category is not trained'')"
    by (simp add: column_name_def)
  show ?thesis
    by (rule conjI[OF h conjI[OF m conjI[OF b conjI[OF u v]]]])
qed

section \<open>Properties of the label encoder\<close>

lemma fit_set: "set (fit names) = set names"
  by (simp add: fit_def)

lemma fit_distinct: "distinct (fit names)"
  by (simp add: fit_def)

lemma fit_sorted: "sorted (fit names)"
  by (simp add: fit_def)

lemma index_of_None: "index_of cs name = None \<longleftrightarrow> name \<notin> set cs"
  by (induction cs) auto

lemma index_of_Some: "index_of cs name = Some i \<Longrightarrow> i < length cs \<and> cs ! i = name"
  by (induction cs arbitrary: i) (auto split: if_splits)

lemma index_of_nth: "distinct cs \<Longrightarrow> i < length cs \<Longrightarrow> index_of cs (cs ! i) = Some i"
proof (induction cs arbitrary: i)
  case Nil
  then show ?case by simp
next
  case (Cons c cs)
  show ?case
  proof (cases i)
    case 0
    then show ?thesis by simp
  next
    case (Suc j)
    with Cons.prems have "j < length cs" "cs ! j \<in> set cs" "c \<notin> set cs" "distinct cs"
      by auto
    with Cons.IH[of j] Suc show ?thesis by auto
  qed
qed

lemma decode_encode: "distinct classes \<Longrightarrow> 0 \<le> i \<Longrightarrow> i < int (length classes) \<Longrightarrow>
  decode classes i = Inr (classes ! nat i) \<and> encode classes (classes ! nat i) = Inr i"
  by (simp add: decode_def encode_def index_of_nth)

lemma encode_decode: "name \<in> set classes \<Longrightarrow>
  \<exists>i. encode classes name = Inr i \<and> decode classes i = Inr name"
proof -
  assume "name \<in> set classes"
  then obtain k where k: "index_of classes name = Some k"
    using index_of_None[of classes name] by auto
  from index_of_Some[OF k] k show ?thesis
    by (simp add: encode_def decode_def)
qed

text \<open>
  C6.  For the encoder fitted on the names of a label column: decoding a valid id and
  encoding the result returns that id; encoding a name present at fit time and decoding
  the result returns that name; encoding a name that was not present at fit time fails;
  decoding an id outside 0..n-1 fails.
\<close>

theorem label_encoder_round_trip:
  "(\<forall>i. 0 \<le> i \<longrightarrow> i < int (length (fit names)) \<longrightarrow>
        (\<exists>name. decode (fit names) i = Inr name \<and> encode (fit names) name = Inr i)) \<and>
   (\<forall>name. name \<in> set names \<longrightarrow>
        (\<exists>i. encode (fit names) name = Inr i \<and> decode (fit names) i = Inr name)) \<and>
   (\<forall>name. name \<notin> set names \<longrightarrow> (\<exists>e. encode (fit names) name = Inl e)) \<and>
   (\<forall>i. i < 0 \<or> int (length (fit names)) \<le> i \<longrightarrow> (\<exists>e. decode (fit names) i = Inl e))"
proof (intro conjI allI impI)
  fix i assume "0 \<le> i" "i < int (length (fit names))"
  with decode_encode[OF fit_distinct, of i names]
  show "\<exists>name. decode (fit names) i = Inr name \<and> encode (fit names) name = Inr i"
    by blast
next
  fix name assume "name \<in> set names"
  then show "\<exists>i. encode (fit names) name = Inr i \<and> decode (fit names) i = Inr name"
    using encode_decode[of name "fit names"] by (simp add: fit_set)
next
  fix name assume "name \<notin> set names"
  then have "index_of (fit names) name = None"
    by (simp add: index_of_None fit_set)
  then show "\<exists>e. encode (fit names) name = Inl e"
    by (simp add: encode_def)
next
  fix i assume "i < 0 \<or> int (length (fit names)) \<le> i"
  then show "\<exists>e. decode (fit names) i = Inl e"
    by (auto simp: decode_def)
qed

theorem label_encoder_round_trip_witness:
  "fit example_names = [''Fraud'', ''Spam''] \<and>
   (\<exists>name. decode (fit example_names) 1 = Inr name \<and> encode (fit example_names) name = Inr 1) \<and>
   (\<exists>i. encode (fit example_names) ''Spam'' = Inr i \<and> decode (fit example_names) i = Inr ''Spam'') \<and>
   (\<exists>e. encode (fit example_names) ''Scam'' = Inl e) \<and>
   (\<exists>e. decode (fit example_names) 2 = Inl e) \<and>
   (\<exists>e. decode (fit example_names) (- 1) = Inl e)"
proof -
  have f: "fit example_names = [''Fraud'', ''Spam'']" by code_simp
  have len: "(1::int) < int (length (fit example_names))" and z: "(0::int) \<le> 1"
    and ge: "(- 1 :: int) < 0 \<or> int (length (fit example_names)) \<le> - 1"
    and ge2: "(2 :: int) < 0 \<or> int (length (fit example_names)) \<le> 2"
    by (simp_all add: f)
  have m: "''Spam'' \<in> set example_names" and n: "''Scam'' \<notin> set example_names"
    by (simp_all add: example_names_def)
  note T = label_encoder_round_trip[of example_names]
  note a = T[THEN conjunct1, rule_format, OF z len]
  note b = T[THEN conjunct2, THEN conjunct1, rule_format, OF m]
  note c = T[THEN conjunct2, THEN conjunct2, THEN conjunct1, rule_format, OF n]
  note d = T[THEN conjunct2, THEN conjunct2, THEN conjunct2, rule_format, OF ge2]
  note e = T[THEN conjunct2, THEN conjunct2, THEN conjunct2, rule_format, OF ge]
  show ?thesis using f a b c d e by blast
qed

section \<open>Properties of the text normalizer\<close>

lemma preprocess_text_bound: "map_of class_namespace ''preprocess_text'' = Some preprocess_text_2nd"
  by (simp add: class_namespace_def class_body_def)

lemma preprocess_text_is_2nd: "preprocess_text = preprocess_text_2nd"
  by (simp add: preprocess_text_def preprocess_text_bound)

lemma re_sub_class: "re_sub (Rep 1 p) [] 0 s = filter (\<lambda>c. \<not> p c) s"
  by (induction s) simp_all

lemma strip_non_letters:
  "re_sub not_letter_rx [] 0 s = filter (\<lambda>c. is_letter c \<or> is_space c) s"
  unfolding not_letter_rx_def by (subst re_sub_class) simp

lemma lemmatize_tokens_total:
  "\<forall>t \<in> set toks. t \<notin> set (stop_words self) \<and> 2 < length t \<longrightarrow> lemmatize self t = Inr (lem t) \<Longrightarrow>
   lemmatize_tokens self toks =
     Inr (map lem (filter (\<lambda>t. t \<notin> set (stop_words self) \<and> 2 < length t) toks))"
  by (induction toks) simp_all

lemma join_Nil_iff: "sep \<noteq> [] \<Longrightarrow> join sep xs = [] \<longleftrightarrow> xs = [] \<or> xs = [[]]"
  by (induction sep xs rule: join.induct) simp_all

lemma preprocess_text_tokens:
  "preprocess_text self text =
     (case tokens_2nd self text of Inl e \<Rightarrow> [] | Inr tokens \<Rightarrow> join '' '' tokens)"
  by (simp add: preprocess_text_is_2nd preprocess_text_2nd_def preprocess_try_2nd_def
           split: sum.split)

lemma example_lemmatize_id: "lemmatize example_classifier t = Inr ((\<lambda>w. w) t)"
  by (simp add: example_classifier_def init_def example_lemmatize_def)

text \<open>
  C2, as the code has it.  \<^verbatim>\<open>preprocess_text\<close> returns the surviving lemmatized tokens
  joined by single spaces; it returns the empty string when no token survives the
  cleaning steps and when any step raises, so no error reaches its caller; and as soon
  as one non-empty token survives, the result is not empty.
\<close>

theorem preprocess_text_degrades:
  "preprocess_text self text =
     (case tokens_2nd self text of Inl e \<Rightarrow> [] | Inr tokens \<Rightarrow> join '' '' tokens) \<and>
   (tokens_2nd self text = Inr [] \<longrightarrow> preprocess_text self text = []) \<and>
   ((\<exists>e. tokens_2nd self text = Inl e) \<longrightarrow> preprocess_text self text = []) \<and>
   (\<forall>tokens. tokens_2nd self text = Inr tokens \<longrightarrow> tokens \<noteq> [] \<longrightarrow> [] \<notin> set tokens \<longrightarrow>
       preprocess_text self text \<noteq> [])"
proof (intro conjI allI impI)
  show "preprocess_text self text =
     (case tokens_2nd self text of Inl e \<Rightarrow> [] | Inr tokens \<Rightarrow> join '' '' tokens)"
    by (rule preprocess_text_tokens)
next
  assume "tokens_2nd self text = Inr []"
  then show "preprocess_text self text = []" by (simp add: preprocess_text_tokens)
next
  assume "\<exists>e. tokens_2nd self text = Inl e"
  then show "preprocess_text self text = []" by (auto simp: preprocess_text_tokens)
next
  fix tokens
  assume t: "tokens_2nd self text = Inr tokens" and "tokens \<noteq> []" "[] \<notin> set tokens"
  then have "\<not> (tokens = [] \<or> tokens = [[]])" by auto
  then have "join '' '' tokens \<noteq> []" using join_Nil_iff[of "'' ''" tokens] by simp
  with t show "preprocess_text self text \<noteq> []" by (simp add: preprocess_text_tokens)
qed

theorem preprocess_text_degrades_witness:
  "tokens_2nd example_classifier (PyStr ''The 12 !'') = Inr [] \<and>
   preprocess_text example_classifier (PyStr ''The 12 !'') = [] \<and>
   tokens_2nd example_classifier (PyObj (Inl (ValueError ''no str''))) = Inl (ValueError ''no str'') \<and>
   preprocess_text example_classifier (PyObj (Inl (ValueError ''no str''))) = [] \<and>
   tokens_2nd example_classifier (PyStr ''Money lost'') = Inr [''money'', ''lost''] \<and>
   preprocess_text example_classifier (PyStr ''Money lost'') \<noteq> []"
proof -
  have a: "tokens_2nd example_classifier (PyStr ''The 12 !'') = Inr []"
    by code_simp
  have b: "tokens_2nd example_classifier (PyObj (Inl (ValueError ''no str''))) = Inl (ValueError ''no str'')"
    by code_simp
  then have b': "\<exists>e. tokens_2nd example_classifier (PyObj (Inl (ValueError ''no str''))) = Inl e"
    by blast
  have c: "tokens_2nd example_classifier (PyStr ''Money lost'') = Inr [''money'', ''lost'']"
    by code_simp
  have c1: "[''money'', ''lost''] \<noteq> []" and c2: "[] \<notin> set [''money'', ''lost'']"
    by simp_all
  note T = preprocess_text_degrades[of example_classifier]
  note r1 = T[THEN conjunct2, THEN conjunct1, rule_format, OF a]
  note r2 = T[THEN conjunct2, THEN conjunct2, THEN conjunct1, rule_format, OF b']
  note r3 = T[THEN conjunct2, THEN conjunct2, THEN conjunct2, rule_format, OF c c1 c2]
  show ?thesis using a b c r1 r2 r3 by blast
qed

text \<open>
  The claim C2 as stated, "the empty string whenever fewer than 3 tokens survive", fails:
  with one and with two surviving tokens the method in effect returns them.  The first
  definition, which is not in effect, returns two surviving tokens as well (with their
  bigram).
\<close>

theorem short_texts_not_dropped:
  "tokens_2nd example_classifier (PyStr ''Fraud!'') = Inr [''fraud''] \<and>
   preprocess_text example_classifier (PyStr ''Fraud!'') = ''fraud'' \<and>
   tokens_2nd example_classifier (PyStr ''Money lost'') = Inr [''money'', ''lost''] \<and>
   preprocess_text example_classifier (PyStr ''Money lost'') = ''money lost'' \<and>
   tokens_1st example_classifier (PyStr ''Money lost'') = Inr [''money'', ''lost''] \<and>
   preprocess_text_1st example_classifier (PyStr ''Money lost'') = ''money lost money_lost''"
  by code_simp

text \<open>
  C8.  The name \<^verbatim>\<open>preprocess_text\<close> is bound to the second definition of the class body.
  On a string \<open>s\<close> the method in effect hands the letters and whitespace of the
  lower-cased \<open>s\<close> to the tokenizer (nothing else is removed: no URL, email or phone
  pattern), and returns exactly the lemmas of the tokens that are no stopwords and longer
  than 2 characters, joined by spaces (no bigram or trigram is added, no minimum count
  is applied): with one or two such tokens the result is not empty.
\<close>

theorem effective_preprocess_text:
  "map_of class_namespace ''preprocess_text'' = Some preprocess_text_2nd \<and>
   (\<forall>toks lem.
      word_tokenize self (filter (\<lambda>c. is_letter c \<or> is_space c) (lower s)) = Inr toks \<longrightarrow>
      (\<forall>t \<in> set toks. t \<notin> set (stop_words self) \<and> 2 < length t \<longrightarrow> lemmatize self t = Inr (lem t)) \<longrightarrow>
        preprocess_text self (PyStr s) =
          join '' '' (map lem (filter (\<lambda>t. t \<notin> set (stop_words self) \<and> 2 < length t) toks)) \<and>
        (length (filter (\<lambda>t. t \<notin> set (stop_words self) \<and> 2 < length t) toks) \<in> {1, 2} \<longrightarrow>
         (\<forall>t \<in> set toks. lem t \<noteq> []) \<longrightarrow>
           preprocess_text self (PyStr s) \<noteq> []))"
proof (intro conjI allI impI)
  show "map_of class_namespace ''preprocess_text'' = Some preprocess_text_2nd"
    by (rule preprocess_text_bound)
next
  fix toks lem
  assume tk: "word_tokenize self (filter (\<lambda>c. is_letter c \<or> is_space c) (lower s)) = Inr toks"
    and lm: "\<forall>t \<in> set toks. t \<notin> set (stop_words self) \<and> 2 < length t \<longrightarrow> lemmatize self t = Inr (lem t)"
  let ?kept = "filter (\<lambda>t. t \<notin> set (stop_words self) \<and> 2 < length t) toks"
  have tokens: "tokens_2nd self (PyStr s) = Inr (map lem ?kept)"
    using tk lemmatize_tokens_total[OF lm]
    by (simp add: tokens_2nd_def py_str_def strip_non_letters)
  then show eq: "preprocess_text self (PyStr s) = join '' '' (map lem ?kept)"
    by (simp add: preprocess_text_tokens)
  assume len: "length ?kept \<in> {1, 2}" and ne: "\<forall>t \<in> set toks. lem t \<noteq> []"
  from len have "?kept \<noteq> []" by auto
  then have n1: "map lem ?kept \<noteq> []" by simp
  from ne have n2: "[] \<notin> set (map lem ?kept)" by auto
  have "\<not> (map lem ?kept = [] \<or> map lem ?kept = [[]])"
  proof
    assume "map lem ?kept = [] \<or> map lem ?kept = [[]]"
    with n1 have "map lem ?kept = [[]]" by blast
    then have "[] \<in> set (map lem ?kept)" by (simp del: set_map set_filter)
    with n2 show False by blast
  qed
  then have "join '' '' (map lem ?kept) \<noteq> []"
    using join_Nil_iff[of "'' ''" "map lem ?kept"] by simp
  with eq show "preprocess_text self (PyStr s) \<noteq> []" by simp
qed

theorem effective_preprocess_text_witness:
  "preprocess_text example_classifier (PyStr example_report) =
     ''visit httpscamexample today call mail bobxorg lost money'' \<and>
   preprocess_text example_classifier (PyStr ''Fraud!'') \<noteq> []"
proof -
  let ?toks = "[''visit'', ''httpscamexample'', ''today'', ''call'', ''or'', ''mail'',
                ''bobxorg'', ''lost'', ''money'']"
  let ?keep = "\<lambda>t. t \<notin> set (stop_words example_classifier) \<and> 2 < length t"
  have tk: "word_tokenize example_classifier
              (filter (\<lambda>c. is_letter c \<or> is_space c) (lower example_report)) = Inr ?toks"
    by code_simp
  have lm: "\<forall>t \<in> set ?toks. ?keep t \<longrightarrow> lemmatize example_classifier t = Inr ((\<lambda>w. w) t)"
    using example_lemmatize_id by blast
  have ev: "join '' '' (map (\<lambda>w. w) (filter ?keep ?toks)) =
              ''visit httpscamexample today call mail bobxorg lost money''"
    by code_simp
  note r1 = effective_preprocess_text[of example_classifier example_report, THEN conjunct2,
      THEN spec[of _ ?toks], THEN spec[of _ "\<lambda>w. w"], THEN mp, OF tk, THEN mp, OF lm,
      THEN conjunct1]
  have tk2: "word_tokenize example_classifier
              (filter (\<lambda>c. is_letter c \<or> is_space c) (lower ''Fraud!'')) = Inr [''fraud'']"
    by code_simp
  have lm2: "\<forall>t \<in> set [''fraud'']. ?keep t \<longrightarrow> lemmatize example_classifier t = Inr ((\<lambda>w. w) t)"
    using example_lemmatize_id by blast
  have len: "length (filter ?keep [''fraud'']) \<in> {1, 2}"
    by code_simp
  have ne: "\<forall>t \<in> set [''fraud'']. (\<lambda>w. w) t \<noteq> []"
    by simp
  note r2 = effective_preprocess_text[of example_classifier "''Fraud!''", THEN conjunct2,
      THEN spec[of _ "[''fraud'']"], THEN spec[of _ "\<lambda>w. w"], THEN mp, OF tk2, THEN mp, OF lm2,
      THEN conjunct2, THEN mp, OF len, THEN mp, OF ne]
  show ?thesis using r1 r2 ev by simp
qed

text \<open>
  For comparison, the first definition on the same two texts: it drops the URL, the
  phone number and the email address, adds bigrams and trigrams, and returns the empty
  string for the single token.
\<close>

lemma first_definition_differs:
  "preprocess_text_1st example_classifier (PyStr example_report) =
     ''visit today call mail lost money visit_today today_call call_mail mail_lost lost_money visit_today_call today_call_mail call_mail_lost mail_lost_money'' \<and>
   preprocess_text_1st example_classifier (PyStr ''Fraud!'') = []"
  by code_simp

section \<open>Properties of the rare-class filter\<close>

lemma label_simps:
  "label Category r = category r" "label SubCategory r = sub_category r"
  by (simp_all add: label_def)

lemma map_label_simps:
  "map (label Category) df = map category df" "map (label SubCategory) df = map sub_category df"
  by (simp_all add: label_def)

lemma index_at_least_counts:
  "index_at_least n (value_counts xs) = filter (\<lambda>v. n \<le> int (count_list xs v)) (remdups xs)"
  by (simp add: index_at_least_def value_counts_def filter_map comp_def)

lemma valid_class_iff:
  "v \<in> set (index_at_least n (value_counts xs)) \<longleftrightarrow> v \<in> set xs \<and> n \<le> int (count_list xs v)"
  by (auto simp: index_at_least_counts)

lemma keep_valid_classes_eq:
  "keep_valid_classes n c df = filter (\<lambda>r. n \<le> int (support c df (label c r))) df"
  unfolding keep_valid_classes_def Let_def support_def
  by (rule filter_cong) (auto simp: valid_class_iff)

lemma count_list_map_filter:
  "count_list (map f (filter (\<lambda>r. P (f r)) xs)) v = (if P v then count_list (map f xs) v else 0)"
  by (induction xs) auto

lemma support_keep_same:
  "support c (keep_valid_classes n c df) v =
     (if n \<le> int (support c df v) then support c df v else 0)"
  unfolding keep_valid_classes_eq
  using count_list_map_filter[of "label c" "\<lambda>w. n \<le> int (support c df w)" df v]
  by (simp add: support_def)

lemma count_list_filter_le: "count_list (map f (filter P xs)) v \<le> count_list (map f xs) v"
  by (induction xs) auto

lemma support_keep_le: "support c (keep_valid_classes n c' df) v \<le> support c df v"
  unfolding keep_valid_classes_eq support_def by (rule count_list_filter_le)

lemma support_pos_iff: "0 < support c df v \<longleftrightarrow> v \<in> set (map (label c) df)"
  unfolding support_def using count_list_0_iff[of "map (label c) df" v] by auto

lemma rare_classes_removed_eq:
  "rare_classes_removed n df =
     keep_valid_classes n SubCategory (keep_valid_classes n Category df)"
  by (simp add: rare_classes_removed_def)

lemma filter_rare_classes_Inr:
  "filter_rare_classes self df = Inr out \<longleftrightarrow>
     out = keep_valid_classes (min_samples_per_class self) SubCategory
             (keep_valid_classes (min_samples_per_class self) Category df) \<and> out \<noteq> []"
  by (auto simp: filter_rare_classes_def rare_classes_removed_eq Let_def)

lemma filter_rare_classes_subset:
  "filter_rare_classes self df = Inr out \<Longrightarrow> set out \<subseteq> set df"
  by (auto simp: filter_rare_classes_Inr keep_valid_classes_eq)

lemma filter_rare_classes_sub_category_support:
  assumes "filter_rare_classes self df = Inr out" and "v \<in> set (map sub_category out)"
  shows "min_samples_per_class self \<le> int (support SubCategory out v)"
proof -
  let ?n = "min_samples_per_class self"
  let ?d = "keep_valid_classes ?n Category df"
  from assms(1) have out: "out = keep_valid_classes ?n SubCategory ?d"
    by (simp add: filter_rare_classes_Inr)
  have "v \<in> set (map (label SubCategory) out)" using assms(2) by (simp add: label_def[abs_def])
  then have "0 < support SubCategory out v" by (simp add: support_pos_iff)
  then show ?thesis
    unfolding out support_keep_same by (simp split: if_splits)
qed

lemma filter_rare_classes_category_support:
  assumes "filter_rare_classes self df = Inr out" and "v \<in> set (map category out)"
  shows "min_samples_per_class self \<le> int (support Category df v)"
proof -
  let ?n = "min_samples_per_class self"
  let ?d = "keep_valid_classes ?n Category df"
  from assms(1) have out: "out = keep_valid_classes ?n SubCategory ?d"
    by (simp add: filter_rare_classes_Inr)
  have "v \<in> set (map (label Category) out)" using assms(2) by (simp add: label_def[abs_def])
  then have "0 < support Category out v" by (simp add: support_pos_iff)
  also have "support Category out v \<le> support Category ?d v"
    unfolding out by (rule support_keep_le)
  finally have "0 < support Category ?d v" .
  then show ?thesis
    unfolding support_keep_same by (simp split: if_splits)
qed

lemma keep_valid_classes_id:
  assumes "\<forall>v \<in> set (map (label c) df). n \<le> int (support c df v)"
  shows "keep_valid_classes n c df = df"
  unfolding keep_valid_classes_eq using assms by (simp add: filter_id_conv)

lemma filter_rare_classes_stable:
  assumes "df \<noteq> []"
    and "\<forall>c. \<forall>v \<in> set (map (label c) df). min_samples_per_class self \<le> int (support c df v)"
  shows "filter_rare_classes self df = Inr df"
  using assms by (simp add: filter_rare_classes_Inr keep_valid_classes_id)

lemma filter_filter_id:
  assumes "filter Q (filter P xs) = xs"
  shows "filter P xs = xs"
proof (rule ccontr)
  assume "filter P xs \<noteq> xs"
  then obtain x where "x \<in> set xs" "\<not> P x"
    by (auto simp: filter_id_conv)
  then have "length (filter P xs) < length xs"
    by (rule length_filter_less)
  moreover have "length (filter Q (filter P xs)) \<le> length (filter P xs)"
    by (rule length_filter_le)
  ultimately show False using assms by simp
qed

lemma keep_valid_classes_fixed:
  "keep_valid_classes n c d = d \<longleftrightarrow> (\<forall>v \<in> set (map (label c) d). n \<le> int (support c d v))"
  by (auto simp: keep_valid_classes_eq filter_id_conv)

lemma filter_rare_classes_fixed:
  "filter_rare_classes self d = Inr d \<longleftrightarrow>
     d \<noteq> [] \<and> (\<forall>c. \<forall>v \<in> set (map (label c) d). min_samples_per_class self \<le> int (support c d v))"
proof
  let ?n = "min_samples_per_class self"
  assume a: "filter_rare_classes self d = Inr d"
  then have ne: "d \<noteq> []" and e: "keep_valid_classes ?n SubCategory (keep_valid_classes ?n Category d) = d"
    by (simp_all add: filter_rare_classes_Inr)
  from e have "filter (\<lambda>r. ?n \<le> int (support SubCategory (keep_valid_classes ?n Category d) (label SubCategory r)))
                 (filter (\<lambda>r. ?n \<le> int (support Category d (label Category r))) d) = d"
    by (simp add: keep_valid_classes_eq)
  from filter_filter_id[OF this] have c: "keep_valid_classes ?n Category d = d"
    by (simp add: keep_valid_classes_eq)
  with e have s: "keep_valid_classes ?n SubCategory d = d" by simp
  from c s have "\<forall>v \<in> set (map (label c) d). ?n \<le> int (support c d v)" for c
    by (cases c) (simp_all only: keep_valid_classes_fixed)
  with ne show "d \<noteq> [] \<and> (\<forall>c. \<forall>v \<in> set (map (label c) d). ?n \<le> int (support c d v))"
    by blast
next
  assume "d \<noteq> [] \<and> (\<forall>c. \<forall>v \<in> set (map (label c) d). min_samples_per_class self \<le> int (support c d v))"
  then show "filter_rare_classes self d = Inr d"
    by (simp add: filter_rare_classes_stable)
qed

lemma filtered_df_eq:
  "filtered_df d =
     filter (\<lambda>r. min_instances \<le> int (support Category d (category r)) \<and>
                 min_instances \<le> int (support SubCategory d (sub_category r))) d"
  unfolding filtered_df_def Let_def support_def map_label_simps
  by (rule filter_cong) (auto simp: valid_class_iff)

text \<open>
  What one run of the filter does ensure.  When \<^verbatim>\<open>filter_rare_classes\<close> returns, every
  sub-category of the output has support of at least the threshold within the output,
  and every category of the output has it within the input: the categories are counted
  before the sub-category pass and not again.  A second run with the same threshold
  returns the output unchanged exactly when every category still has the threshold
  within the output.  The cell of \<^verbatim>\<open>part_000\<close> keeps the rows whose two labels have the
  threshold within its input, and evaluating it again changes nothing exactly when they
  have it within its output.
\<close>

theorem filter_rare_classes_supports:
  "(\<forall>out. filter_rare_classes self df = Inr out \<longrightarrow>
      (\<forall>v \<in> set (map sub_category out). min_samples_per_class self \<le> int (support SubCategory out v)) \<and>
      (\<forall>v \<in> set (map category out). min_samples_per_class self \<le> int (support Category df v)) \<and>
      (filter_rare_classes self out = Inr out \<longleftrightarrow>
         (\<forall>v \<in> set (map category out). min_samples_per_class self \<le> int (support Category out v)))) \<and>
   (\<forall>r \<in> set (filtered_df df).
      min_instances \<le> int (support Category df (category r)) \<and>
      min_instances \<le> int (support SubCategory df (sub_category r))) \<and>
   (filtered_df (filtered_df df) = filtered_df df \<longleftrightarrow>
      (\<forall>r \<in> set (filtered_df df).
         min_instances \<le> int (support Category (filtered_df df) (category r)) \<and>
         min_instances \<le> int (support SubCategory (filtered_df df) (sub_category r))))"
proof (intro conjI allI impI ballI)
  fix out v
  assume f: "filter_rare_classes self df = Inr out"
  { assume "v \<in> set (map sub_category out)"
    then show "min_samples_per_class self \<le> int (support SubCategory out v)"
      by (rule filter_rare_classes_sub_category_support[OF f]) }
  { assume "v \<in> set (map category out)"
    then show "min_samples_per_class self \<le> int (support Category df v)"
      by (rule filter_rare_classes_category_support[OF f]) }
next
  fix out
  assume f: "filter_rare_classes self df = Inr out"
  then have ne: "out \<noteq> []" by (auto simp: filter_rare_classes_Inr)
  have sub: "\<forall>v \<in> set (map (label SubCategory) out). min_samples_per_class self \<le> int (support SubCategory out v)"
    using filter_rare_classes_sub_category_support[OF f] by (simp add: map_label_simps)
  have "(\<forall>c. \<forall>v \<in> set (map (label c) out). min_samples_per_class self \<le> int (support c out v)) \<longleftrightarrow>
        (\<forall>v \<in> set (map (label Category) out). min_samples_per_class self \<le> int (support Category out v))"
  proof
    assume "\<forall>c. \<forall>v \<in> set (map (label c) out). min_samples_per_class self \<le> int (support c out v)"
    then show "\<forall>v \<in> set (map (label Category) out). min_samples_per_class self \<le> int (support Category out v)"
      by (rule spec)
  next
    assume cat: "\<forall>v \<in> set (map (label Category) out). min_samples_per_class self \<le> int (support Category out v)"
    show "\<forall>c. \<forall>v \<in> set (map (label c) out). min_samples_per_class self \<le> int (support c out v)"
    proof
      fix c show "\<forall>v \<in> set (map (label c) out). min_samples_per_class self \<le> int (support c out v)"
        using cat sub by (cases c) simp_all
    qed
  qed
  then show "filter_rare_classes self out = Inr out \<longleftrightarrow>
         (\<forall>v \<in> set (map category out). min_samples_per_class self \<le> int (support Category out v))"
    using ne by (simp add: filter_rare_classes_fixed map_label_simps)
next
  fix r assume "r \<in> set (filtered_df df)"
  then show "min_instances \<le> int (support Category df (category r))"
    and "min_instances \<le> int (support SubCategory df (sub_category r))"
    by (simp_all add: filtered_df_eq)
next
  show "filtered_df (filtered_df df) = filtered_df df \<longleftrightarrow>
      (\<forall>r \<in> set (filtered_df df).
         min_instances \<le> int (support Category (filtered_df df) (category r)) \<and>
         min_instances \<le> int (support SubCategory (filtered_df df) (sub_category r)))"
    by (subst filtered_df_eq[of "filtered_df df"]) (simp add: filter_id_conv)
qed

theorem filter_rare_classes_supports_witness:
  "filter_rare_classes example_classifier example_dataset = Inr filtered_example \<and>
   min_samples_per_class example_classifier \<le> int (support SubCategory filtered_example ''UPI'') \<and>
   min_samples_per_class example_classifier \<le> int (support Category example_dataset ''Fraud'') \<and>
   filter_rare_classes example_classifier (tl filtered_example) = Inr (tl filtered_example) \<and>
   min_instances \<le> int (support Category combined_example ''Fraud'')"
proof -
  have h: "filter_rare_classes example_classifier example_dataset = Inr filtered_example"
    by code_simp
  have h2: "filter_rare_classes example_classifier filtered_example = Inr (tl filtered_example)"
    by code_simp
  have u: "''UPI'' \<in> set (map sub_category filtered_example)"
    and f: "''Fraud'' \<in> set (map category filtered_example)"
    by (simp_all add: filtered_example_def raw_row_def)
  have st: "\<forall>v \<in> set (map category (tl filtered_example)).
              min_samples_per_class example_classifier \<le> int (support Category (tl filtered_example) v)"
    by code_simp
  have r: "raw_row (PyStr ''Money lost'') ''Fraud'' ''UPI'' \<in> set (filtered_df combined_example)"
    by code_simp
  note T = filter_rare_classes_supports[of example_classifier example_dataset]
  note T1 = T[THEN conjunct1, rule_format, OF h]
  note a = T1[THEN conjunct1, rule_format, OF u]
  note b = T1[THEN conjunct2, THEN conjunct1, rule_format, OF f]
  note T2 = filter_rare_classes_supports[of example_classifier filtered_example,
              THEN conjunct1, rule_format, OF h2]
  note c = T2[THEN conjunct2, THEN conjunct2, THEN iffD2, OF st]
  note d = filter_rare_classes_supports[of example_classifier combined_example,
              THEN conjunct2, THEN conjunct1, rule_format, OF r, THEN conjunct1]
  have e: "category (raw_row (PyStr ''Money lost'') ''Fraud'' ''UPI'') = ''Fraud''"
    by (simp add: raw_row_def)
  show ?thesis using h a b c d e by simp
qed

text \<open>
  C3.  The claim: the output of the class filter holds no label value, in either column,
  whose support within the output is below the threshold, and filtering twice equals
  filtering once.  The code misses the rows that the sub-category pass takes from a
  category already counted.  With threshold 2, the four example rows lose the only row
  of sub-category Card, which leaves category Fraud with one row in the output, and a
  second run removes that row too.  The cell of \<^verbatim>\<open>part_000\<close> (threshold 5) leaves
  category Fraud with four rows, and a second evaluation of the cell removes them.
\<close>

theorem filter_leaves_rare_category:
  "min_samples_per_class example_classifier = 2 \<and>
   filter_rare_classes example_classifier example_dataset = Inr filtered_example \<and>
   support Category filtered_example ''Fraud'' = 1 \<and>
   filter_rare_classes example_classifier filtered_example = Inr (tl filtered_example) \<and>
   min_instances = 5 \<and>
   support Category (filtered_df combined_example) ''Fraud'' = 4 \<and>
   length (filtered_df combined_example) = 9 \<and>
   length (filtered_df (filtered_df combined_example)) = 5"
  by code_simp

section \<open>Properties of data preparation\<close>

lemma label_unknown_row:
  "label c (unknown_row c' r) = (if c = c' then ''Unknown'' else label c r)"
  by (cases c; cases c') (simp_all add: label_def unknown_row_def set_label_def)

lemma py_index_first: "df \<noteq> [] \<Longrightarrow> py_index df 0 = Inr (hd df)"
  by (cases df) (simp_all add: py_index_def)

lemma add_unknown_row_nonempty:
  "df \<noteq> [] \<Longrightarrow>
   add_unknown_row c df =
     Inr (df @ (if ''Unknown'' \<in> set (map (label c) df) then [] else [unknown_row c (hd df)]))"
  by (simp add: add_unknown_row_def py_index_first)

lemma add_unknown_rows_label:
  assumes "df \<noteq> []"
  shows "add_unknown_rows df =
     Inr (df @ (if ''Unknown'' \<in> set (map (label Category) df) then [] else [unknown_row Category (hd df)])
             @ (if ''Unknown'' \<in> set (map (label SubCategory) df) then [] else [unknown_row SubCategory (hd df)]))"
proof -
  let ?d1 = "df @ (if ''Unknown'' \<in> set (map (label Category) df) then [] else [unknown_row Category (hd df)])"
  have 1: "add_unknown_row Category df = Inr ?d1"
    using add_unknown_row_nonempty[OF assms, of Category] by simp
  have ne: "?d1 \<noteq> []" and hd: "hd ?d1 = hd df" using assms by simp_all
  have "hd df \<in> set df" using assms by simp
  then have "label SubCategory (hd df) \<in> set (map (label SubCategory) df)" by (simp del: label_simps)
  then have mem: "''Unknown'' \<in> set (map (label SubCategory) ?d1) \<longleftrightarrow>
             ''Unknown'' \<in> set (map (label SubCategory) df)"
    by (auto simp: label_unknown_row)
  have 2: "add_unknown_row SubCategory ?d1 =
             Inr (?d1 @ (if ''Unknown'' \<in> set (map (label SubCategory) df) then []
                         else [unknown_row SubCategory (hd df)]))"
    using add_unknown_row_nonempty[OF ne, of SubCategory] unfolding mem hd by simp
  show ?thesis
    unfolding add_unknown_rows_def 1 using 2 by simp
qed

lemma add_unknown_rows_nonempty:
  assumes "df \<noteq> []"
  shows "add_unknown_rows df =
     Inr (df @ (if ''Unknown'' \<in> set (map category df) then [] else [unknown_row Category (hd df)])
             @ (if ''Unknown'' \<in> set (map sub_category df) then [] else [unknown_row SubCategory (hd df)]))"
  using add_unknown_rows_label[OF assms] unfolding map_label_simps .

lemma support_append: "support c (xs @ ys) v = support c xs v + support c ys v"
  by (induction xs) (simp_all add: support_def)

lemma support_single: "support c [r] v = (if label c r = v then 1 else 0)"
  by (simp add: support_def)

lemma support_Nil: "support c [] v = 0"
  by (simp add: support_def)

lemma support_absent: "v \<notin> set (map (label c) df) \<Longrightarrow> support c df v = 0"
  using support_pos_iff[of c df v] by simp

lemma support_unknown_added:
  assumes "df \<noteq> []" and "''Unknown'' \<notin> set (map (label c) df)"
    and "add_unknown_rows df = Inr df1"
  shows "support c df1 ''Unknown'' = 1"
proof -
  have "hd df \<in> set df" using assms(1) by simp
  then have "label c (hd df) \<in> set (map (label c) df)" by simp
  with assms(2) have h: "label c (hd df) \<noteq> ''Unknown''" by metis
  from assms(2) have z: "support c df ''Unknown'' = 0" by (rule support_absent)
  have one: "support c (if ''Unknown'' \<in> set (map (label c') df) then [] else [unknown_row c' (hd df)]) ''Unknown''
        = (if c = c' then 1 else 0)" for c'
    using assms(2) h by (auto simp: support_single support_Nil label_unknown_row)
  from assms(3) add_unknown_rows_label[OF assms(1)] have
    "df1 = df @ (if ''Unknown'' \<in> set (map (label Category) df) then [] else [unknown_row Category (hd df)])
             @ (if ''Unknown'' \<in> set (map (label SubCategory) df) then [] else [unknown_row SubCategory (hd df)])"
    by simp
  then have "support c df1 ''Unknown'' = (if c = Category then 1 else 0) + (if c = SubCategory then 1 else 0)"
    by (simp only: support_append z one)
  then show ?thesis by (cases c) simp_all
qed

lemma rare_value_removed:
  assumes "int (support c df1 v) < n"
  shows "v \<notin> set (map (label c) (rare_classes_removed n df1))"
proof -
  let ?d = "keep_valid_classes n Category df1"
  let ?out = "keep_valid_classes n SubCategory ?d"
  have "support c ?out v = 0"
  proof (cases c)
    case Category
    with assms have "support Category ?d v = 0" by (simp add: support_keep_same)
    moreover have "support Category ?out v \<le> support Category ?d v"
      by (rule support_keep_le)
    ultimately show ?thesis using Category by simp
  next
    case SubCategory
    have "support SubCategory ?d v \<le> support SubCategory df1 v" by (rule support_keep_le)
    with assms SubCategory have "int (support SubCategory ?d v) < n" by simp
    then show ?thesis unfolding SubCategory by (simp add: support_keep_same)
  qed
  then show ?thesis
    using support_pos_iff[of c ?out v] by (simp add: rare_classes_removed_eq)
qed

lemma transform_known:
  "set ys \<subseteq> set classes \<Longrightarrow> \<exists>ids. transform classes ys = Inr ids \<and> length ids = length ys"
proof (induction ys)
  case Nil
  then show ?case by simp
next
  case (Cons y ys)
  then obtain ids where "transform classes ys = Inr ids" "length ids = length ys" by auto
  moreover from Cons.prems obtain k where "index_of classes y = Some k"
    using index_of_None[of classes y] by auto
  ultimately show ?case by (simp add: encode_def)
qed

lemma label_set_encoded: "label c (set_encoded c' i r) = label c r"
  by (cases c; cases c') (simp_all add: label_def set_encoded_def)

lemma map_label_zip:
  "length ids = length df \<Longrightarrow>
   map (label c) (map (\<lambda>(r, i). set_encoded c' i r) (zip df ids)) = map (label c) df"
  by (induction df ids rule: list_induct2') (simp_all add: label_set_encoded)

lemma encode_column_Inr:
  "\<exists>df'. encode_column c (self, df) =
       Inr (self\<lparr>label_encoders := (label_encoders self)(c := Some (fit (map (label c) df)))\<rparr>, df')
     \<and> (\<forall>c'. map (label c') df' = map (label c') df)"
proof -
  have "set (map (label c) df) \<subseteq> set (fit (map (label c) df))" by (simp add: fit_set)
  from transform_known[OF this] obtain ids where
    t: "transform (fit (map (label c) df)) (map (label c) df) = Inr ids" and l: "length ids = length df"
    by auto
  show ?thesis
    using t map_label_zip[OF l] by (simp add: encode_column_def Let_def)
qed

lemma prepare_data_Inr:
  assumes "prepare_data self df = Inr (self', out)"
  shows "\<exists>df1 df2. add_unknown_rows df = Inr df1 \<and> filter_rare_classes self df1 = Inr df2 \<and>
           min_samples_per_class self' = min_samples_per_class self \<and>
           (\<forall>c. label_encoders self' c = Some (fit (map (label c) out)) \<and>
                map (label c) out =
                  map (label c) (filter (\<lambda>r. preprocess_text self (crimeaditionalinfo r) \<noteq> []) df2))"
proof -
  from assms obtain df1 df2 where 1: "add_unknown_rows df = Inr df1"
    and 2: "filter_rare_classes self df1 = Inr df2"
    by (auto simp: prepare_data_def split: sum.splits)
  define df4 where "df4 = filter (\<lambda>r. case processed_text r of None \<Rightarrow> False | Some p \<Rightarrow> length p > 0)
       (map (\<lambda>r. r\<lparr>processed_text := Some (preprocess_text self (crimeaditionalinfo r))\<rparr>) df2)"
  have lab: "map (label c) df4 = map (label c) (filter (\<lambda>r. preprocess_text self (crimeaditionalinfo r) \<noteq> []) df2)" for c
    unfolding df4_def by (induction df2) (auto simp: label_def split: column.splits)
  from encode_column_Inr[of Category self df4] obtain d5 where
    3: "encode_column Category (self, df4) =
          Inr (self\<lparr>label_encoders := (label_encoders self)(Category := Some (fit (map (label Category) df4)))\<rparr>, d5)"
    and l5: "\<forall>c'. map (label c') d5 = map (label c') df4" by blast
  let ?s1 = "self\<lparr>label_encoders := (label_encoders self)(Category := Some (fit (map (label Category) df4)))\<rparr>"
  from encode_column_Inr[of SubCategory ?s1 d5] obtain d6 where
    4: "encode_column SubCategory (?s1, d5) =
          Inr (?s1\<lparr>label_encoders := (label_encoders ?s1)(SubCategory := Some (fit (map (label SubCategory) d5)))\<rparr>, d6)"
    and l6: "\<forall>c'. map (label c') d6 = map (label c') d5" by blast
  from assms 1 2 3 4 have self': "self' = ?s1\<lparr>label_encoders := (label_encoders ?s1)(SubCategory := Some (fit (map (label SubCategory) d5)))\<rparr>"
    and out: "out = d6"
    by (simp_all add: prepare_data_def Let_def df4_def)
  have lo: "map (label c) out = map (label c) df4" for c
    using l5 l6 out by simp
  have enc: "label_encoders self' c = Some (fit (map (label c) out))" for c
    using l5 lo by (cases c) (simp_all add: self')
  have n: "min_samples_per_class self' = min_samples_per_class self"
    by (simp add: self')
  show ?thesis using 1 2 n enc lo lab by auto
qed

lemma unknown_row_fields:
  "label c (unknown_row c r) = ''Unknown'' \<and> crimeaditionalinfo (unknown_row c r) = PyStr ''unknown case''"
  by (cases c) (simp_all add: unknown_row_def set_label_def label_def)

lemma prepare_example:
  "case prepare_data example_classifier example_dataset of
     Inl e \<Rightarrow> False
   | Inr (self', out) \<Rightarrow>
       label_encoders self' Category = Some [''Fraud'', ''Spam''] \<and>
       label_encoders self' SubCategory = Some [''UPI''] \<and>
       map category out = [''Fraud'', ''Spam'', ''Spam''] \<and>
       support Category out ''Fraud'' = 1 \<and>
       min_samples_per_class self' = 2"
  by code_simp

lemma encoders_both:
  "(f(Category := Some (g Category), SubCategory := Some (g SubCategory))) = (\<lambda>c. Some (g c))"
proof
  fix c show "(f(Category := Some (g Category), SubCategory := Some (g SubCategory))) c = Some (g c)"
    by (cases c) simp_all
qed

lemma prepare_data_raises:
  "add_unknown_rows df = Inr df1 \<Longrightarrow> filter_rare_classes self df1 = Inl e \<Longrightarrow>
   prepare_data self df = Inl e"
  by (simp add: prepare_data_def)

lemma prepare_data_returns:
  assumes 1: "add_unknown_rows df = Inr df1" and 2: "filter_rare_classes self df1 = Inr df2"
  shows "\<exists>out. prepare_data self df =
           Inr (self\<lparr>label_encoders := (\<lambda>c. Some (fit (map (label c) out)))\<rparr>, out) \<and>
         (\<forall>c. map (label c) out =
               map (label c) (filter (\<lambda>r. preprocess_text self (crimeaditionalinfo r) \<noteq> []) df2))"
proof -
  define df4 where "df4 = filter (\<lambda>r. case processed_text r of None \<Rightarrow> False | Some p \<Rightarrow> length p > 0)
       (map (\<lambda>r. r\<lparr>processed_text := Some (preprocess_text self (crimeaditionalinfo r))\<rparr>) df2)"
  have lab: "map (label c) df4 = map (label c) (filter (\<lambda>r. preprocess_text self (crimeaditionalinfo r) \<noteq> []) df2)" for c
    unfolding df4_def by (induction df2) (auto simp: label_def split: column.splits)
  from encode_column_Inr[of Category self df4] obtain d5 where
    3: "encode_column Category (self, df4) =
          Inr (self\<lparr>label_encoders := (label_encoders self)(Category := Some (fit (map (label Category) df4)))\<rparr>, d5)"
    and l5: "\<forall>c'. map (label c') d5 = map (label c') df4" by blast
  let ?s1 = "self\<lparr>label_encoders := (label_encoders self)(Category := Some (fit (map (label Category) df4)))\<rparr>"
  from encode_column_Inr[of SubCategory ?s1 d5] obtain d6 where
    4: "encode_column SubCategory (?s1, d5) =
          Inr (?s1\<lparr>label_encoders := (label_encoders ?s1)(SubCategory := Some (fit (map (label SubCategory) d5)))\<rparr>, d6)"
    and l6: "\<forall>c'. map (label c') d6 = map (label c') d5" by blast
  have lo: "map (label c) d6 = map (label c) df4" for c
    using l5 l6 by simp
  have enc: "(label_encoders self)(Category := Some (fit (map (label Category) df4)),
                                   SubCategory := Some (fit (map (label SubCategory) d5)))
             = (\<lambda>c. Some (fit (map (label c) d6)))"
    using encoders_both[of "label_encoders self" "\<lambda>c. fit (map (label c) d6)"] l5 lo by simp
  have "prepare_data self df =
          Inr (self\<lparr>label_encoders := (\<lambda>c. Some (fit (map (label c) d6)))\<rparr>, d6)"
    using 1 2 3 4 enc by (simp add: prepare_data_def Let_def df4_def[symmetric])
  with lo lab show ?thesis by auto
qed

text \<open>
  C9.  On a non-empty dataset, \<^verbatim>\<open>prepare_data\<close> first appends, for each label column in
  which \<^verbatim>\<open>'Unknown'\<close> does not occur, one copy of row 0 with that label set to
  \<^verbatim>\<open>'Unknown'\<close> and the text \<^verbatim>\<open>'unknown case'\<close>.  The rare-class filter then runs on
  that augmented dataset: when it raises, \<^verbatim>\<open>prepare_data\<close> raises the same exception;
  when it returns, \<^verbatim>\<open>prepare_data\<close> returns, the labels of the prepared rows are those
  of the filtered rows whose normalized text is not empty, and the encoder of each
  column is fitted on these labels.  When \<^verbatim>\<open>min_samples_per_class\<close> exceeds 1 and
  \<^verbatim>\<open>'Unknown'\<close> was absent from a column, that value has support 1 in the augmented
  dataset, the filter removes its row, and the encoder that \<^verbatim>\<open>prepare_data\<close> fits for
  the column does not hold \<^verbatim>\<open>'Unknown'\<close>.
\<close>

theorem unknown_row_added_then_filtered:
  assumes "df \<noteq> []"
  shows "add_unknown_rows df =
           Inr (df @ (if ''Unknown'' \<in> set (map category df) then [] else [unknown_row Category (hd df)])
                   @ (if ''Unknown'' \<in> set (map sub_category df) then [] else [unknown_row SubCategory (hd df)])) \<and>
         (\<forall>c r. label c (unknown_row c r) = ''Unknown'' \<and>
                crimeaditionalinfo (unknown_row c r) = PyStr ''unknown case'') \<and>
         (\<forall>df1. add_unknown_rows df = Inr df1 \<longrightarrow>
            (\<forall>e. filter_rare_classes self df1 = Inl e \<longrightarrow> prepare_data self df = Inl e) \<and>
            (\<forall>df2. filter_rare_classes self df1 = Inr df2 \<longrightarrow>
               df2 = rare_classes_removed (min_samples_per_class self) df1 \<and>
               (\<exists>out. prepare_data self df =
                        Inr (self\<lparr>label_encoders := (\<lambda>c. Some (fit (map (label c) out)))\<rparr>, out) \<and>
                  (\<forall>c. map (label c) out =
                        map (label c)
                          (filter (\<lambda>r. preprocess_text self (crimeaditionalinfo r) \<noteq> []) df2)) \<and>
                  (\<forall>c. 1 < min_samples_per_class self \<longrightarrow>
                        ''Unknown'' \<notin> set (map (label c) df) \<longrightarrow>
                        ''Unknown'' \<notin> set (fit (map (label c) out))))) \<and>
            (\<forall>c. 1 < min_samples_per_class self \<longrightarrow> ''Unknown'' \<notin> set (map (label c) df) \<longrightarrow>
               support c df1 ''Unknown'' = 1 \<and>
               ''Unknown'' \<notin>
                 set (map (label c) (rare_classes_removed (min_samples_per_class self) df1))))"
proof (intro conjI allI impI)
  show "add_unknown_rows df =
           Inr (df @ (if ''Unknown'' \<in> set (map category df) then [] else [unknown_row Category (hd df)])
                   @ (if ''Unknown'' \<in> set (map sub_category df) then [] else [unknown_row SubCategory (hd df)]))"
    by (rule add_unknown_rows_nonempty[OF assms])
next
  fix c r
  show "label c (unknown_row c r) = ''Unknown''"
    and "crimeaditionalinfo (unknown_row c r) = PyStr ''unknown case''"
    using unknown_row_fields[of c r] by simp_all
next
  fix df1 e
  assume "add_unknown_rows df = Inr df1" and "filter_rare_classes self df1 = Inl e"
  thus "prepare_data self df = Inl e" by (rule prepare_data_raises)
next
  fix df1 df2
  assume 1: "add_unknown_rows df = Inr df1" and 2: "filter_rare_classes self df1 = Inr df2"
  from 2 show r: "df2 = rare_classes_removed (min_samples_per_class self) df1"
    by (simp add: filter_rare_classes_Inr rare_classes_removed_eq)
  from prepare_data_returns[OF 1 2] obtain out where
    p: "prepare_data self df =
          Inr (self\<lparr>label_encoders := (\<lambda>c. Some (fit (map (label c) out)))\<rparr>, out)"
    and l: "\<forall>c. map (label c) out =
                 map (label c) (filter (\<lambda>r. preprocess_text self (crimeaditionalinfo r) \<noteq> []) df2)"
    by blast
  have u: "''Unknown'' \<notin> set (fit (map (label c) out))"
    if n: "1 < min_samples_per_class self" and a: "''Unknown'' \<notin> set (map (label c) df)" for c
  proof -
    have "support c df1 ''Unknown'' = 1"
      by (rule support_unknown_added[OF assms a 1])
    with n have "int (support c df1 ''Unknown'') < min_samples_per_class self" by simp
    from rare_value_removed[OF this] r have "''Unknown'' \<notin> set (map (label c) df2)" by simp
    moreover have "set (map (label c) out) \<subseteq> set (map (label c) df2)"
      using l by auto
    ultimately show ?thesis by (auto simp: fit_set)
  qed
  from p l u
  show "\<exists>out. prepare_data self df =
                Inr (self\<lparr>label_encoders := (\<lambda>c. Some (fit (map (label c) out)))\<rparr>, out) \<and>
          (\<forall>c. map (label c) out =
                map (label c) (filter (\<lambda>r. preprocess_text self (crimeaditionalinfo r) \<noteq> []) df2)) \<and>
          (\<forall>c. 1 < min_samples_per_class self \<longrightarrow>
                ''Unknown'' \<notin> set (map (label c) df) \<longrightarrow>
                ''Unknown'' \<notin> set (fit (map (label c) out)))"
    by blast
next
  fix df1 c
  assume 1: "add_unknown_rows df = Inr df1"
    and n: "1 < min_samples_per_class self" and a: "''Unknown'' \<notin> set (map (label c) df)"
  show s: "support c df1 ''Unknown'' = 1"
    by (rule support_unknown_added[OF assms a 1])
  with n have "int (support c df1 ''Unknown'') < min_samples_per_class self" by simp
  from rare_value_removed[OF this]
  show "''Unknown'' \<notin> set (map (label c) (rare_classes_removed (min_samples_per_class self) df1))" .
qed

theorem unknown_row_added_then_filtered_witness:
  "example_dataset \<noteq> [] \<and> 1 < min_samples_per_class example_classifier \<and>
   ''Unknown'' \<notin> set (map (label Category) example_dataset) \<and>
   add_unknown_rows example_dataset =
     Inr (example_dataset @ [unknown_row Category (hd example_dataset),
                             unknown_row SubCategory (hd example_dataset)]) \<and>
   support Category
     (example_dataset @ [unknown_row Category (hd example_dataset),
                         unknown_row SubCategory (hd example_dataset)]) ''Unknown'' = 1 \<and>
   filter_rare_classes example_classifier
     (example_dataset @ [unknown_row Category (hd example_dataset),
                         unknown_row SubCategory (hd example_dataset)]) = Inr filtered_example \<and>
   ''Unknown'' \<notin> set (map (label Category) filtered_example) \<and>
   (\<exists>out. prepare_data example_classifier example_dataset =
            Inr (example_classifier\<lparr>label_encoders := (\<lambda>c. Some (fit (map (label c) out)))\<rparr>, out) \<and>
          map (label Category) out = [''Fraud'', ''Spam'', ''Spam''] \<and>
          ''Unknown'' \<notin> set (fit (map (label Category) out))) \<and>
   take 1 example_dataset \<noteq> [] \<and>
   filter_rare_classes example_classifier
     (take 1 example_dataset @ [unknown_row Category (hd (take 1 example_dataset)),
                                unknown_row SubCategory (hd (take 1 example_dataset))]) =
     Inl (ValueError ''No samples remaining after filtering rare classes. Consider lowering min_samples_per_class.'') \<and>
   prepare_data example_classifier (take 1 example_dataset) =
     Inl (ValueError ''No samples remaining after filtering rare classes. Consider lowering min_samples_per_class.'')"
proof -
  let ?df1 = "example_dataset @ [unknown_row Category (hd example_dataset),
                                 unknown_row SubCategory (hd example_dataset)]"
  let ?d = "take 1 example_dataset"
  let ?d1 = "?d @ [unknown_row Category (hd ?d), unknown_row SubCategory (hd ?d)]"
  let ?err = "ValueError ''No samples remaining after filtering rare classes. Consider lowering min_samples_per_class.''"
  have ne: "example_dataset \<noteq> []" by (simp add: example_dataset_def)
  have n: "1 < min_samples_per_class example_classifier"
    by (simp add: example_classifier_def init_def)
  have a: "''Unknown'' \<notin> set (map (label Category) example_dataset)"
    by (simp add: example_dataset_def raw_row_def label_def)
  have c: "''Unknown'' \<notin> set (map category example_dataset)"
    and s: "''Unknown'' \<notin> set (map sub_category example_dataset)"
    by (simp_all add: example_dataset_def raw_row_def)
  have f: "filter_rare_classes example_classifier ?df1 = Inr filtered_example"
    by code_simp
  have k: "map (label Category)
             (filter (\<lambda>r. preprocess_text example_classifier (crimeaditionalinfo r) \<noteq> [])
                filtered_example) = [''Fraud'', ''Spam'', ''Spam'']"
    by code_simp
  have u: "''Unknown'' \<notin> set (map (label Category) filtered_example)"
    by code_simp
  note T = unknown_row_added_then_filtered[OF ne, of example_classifier]
  from T[THEN conjunct1] c s have add: "add_unknown_rows example_dataset = Inr ?df1"
    by simp
  note U = T[THEN conjunct2, THEN conjunct2, rule_format, OF add]
  from U[THEN conjunct2, THEN conjunct1, rule_format, OF f, THEN conjunct2]
  obtain out where
    p: "prepare_data example_classifier example_dataset =
          Inr (example_classifier\<lparr>label_encoders := (\<lambda>c. Some (fit (map (label c) out)))\<rparr>, out)"
    and l: "\<forall>c. map (label c) out =
                 map (label c)
                   (filter (\<lambda>r. preprocess_text example_classifier (crimeaditionalinfo r) \<noteq> [])
                      filtered_example)"
    and x: "\<forall>c. 1 < min_samples_per_class example_classifier \<longrightarrow>
                 ''Unknown'' \<notin> set (map (label c) example_dataset) \<longrightarrow>
                 ''Unknown'' \<notin> set (fit (map (label c) out))"
    by blast
  from l k have m: "map (label Category) out = [''Fraud'', ''Spam'', ''Spam'']" by simp
  from x n a have z: "''Unknown'' \<notin> set (fit (map (label Category) out))" by blast
  have E: "\<exists>out. prepare_data example_classifier example_dataset =
            Inr (example_classifier\<lparr>label_encoders := (\<lambda>c. Some (fit (map (label c) out)))\<rparr>, out) \<and>
          map (label Category) out = [''Fraud'', ''Spam'', ''Spam''] \<and>
          ''Unknown'' \<notin> set (fit (map (label Category) out))"
    by (rule exI[of _ out], rule conjI[OF p conjI[OF m z]])
  note v = U[THEN conjunct2, THEN conjunct2, rule_format, OF n a, THEN conjunct1]
  have ne2: "?d \<noteq> []" by (simp add: example_dataset_def)
  have add2: "add_unknown_rows ?d = Inr ?d1" by code_simp
  have f2: "filter_rare_classes example_classifier ?d1 = Inl ?err" by code_simp
  note T2 = unknown_row_added_then_filtered[OF ne2, of example_classifier]
  note r = T2[THEN conjunct2, THEN conjunct2, rule_format, OF add2, THEN conjunct1, rule_format, OF f2]
  show ?thesis
    by (rule conjI[OF ne conjI[OF n conjI[OF a conjI[OF add conjI[OF v conjI[OF f conjI[OF u
              conjI[OF E conjI[OF ne2 conjI[OF f2 r]]]]]]]]]])
qed

lemma support_cong: "map (label c) d = map (label c) d' \<Longrightarrow> support c d v = support c d' v"
  by (simp add: support_def)

lemma analyzer_column_Inr:
  assumes "analyzer_column c (self, d) = Inr (self', d')"
  shows "self' = self\<lparr>label_encoders := (label_encoders self)
             (c := Some (fit (index_at_least (min_samples_per_class self) (value_counts (map (label c) d)))))\<rparr>"
    and "\<forall>c'. map (label c') d' = map (label c') (keep_valid_classes (min_samples_per_class self) c d)"
proof -
  let ?valid = "index_at_least (min_samples_per_class self) (value_counts (map (label c) d))"
  let ?d1 = "filter (\<lambda>r. label c r \<in> set ?valid) d"
  from assms obtain ids where
    t: "transform (fit ?valid) (map (label c) ?d1) = Inr ids"
    and s: "self' = self\<lparr>label_encoders := (label_encoders self)(c := Some (fit ?valid))\<rparr>"
    and d': "d' = map (\<lambda>(r, i). set_encoded c i r) (zip ?d1 ids)"
    by (auto simp: analyzer_column_def Let_def split: if_splits sum.splits)
  from s show "self' = self\<lparr>label_encoders := (label_encoders self)(c := Some (fit ?valid))\<rparr>" .
  have "set (map (label c) ?d1) \<subseteq> set (fit ?valid)" by (auto simp: fit_set)
  from transform_known[OF this] t have "length ids = length ?d1" by simp
  from map_label_zip[OF this] d'
  show "\<forall>c'. map (label c') d' = map (label c') (keep_valid_classes (min_samples_per_class self) c d)"
    by (simp add: keep_valid_classes_def Let_def)
qed

lemma analyzer_prepare_data_Inr:
  assumes "analyzer_prepare_data (ClassifierInstance self) df = Inr (self', out)"
  shows "\<exists>cats subs.
           label_encoders self' Category = Some cats \<and> label_encoders self' SubCategory = Some subs \<and>
           (\<forall>v \<in> set cats. min_samples_per_class self \<le>
               int (support Category (filter (\<lambda>r. preprocess_text self (crimeaditionalinfo r) \<noteq> []) df) v)) \<and>
           (\<forall>v \<in> set subs. min_samples_per_class self \<le> int (support SubCategory out v))"
proof -
  let ?n = "min_samples_per_class self"
  define d0 where "d0 = filter (\<lambda>r. case processed_text r of None \<Rightarrow> False | Some p \<Rightarrow> length p > 0)
       (map (\<lambda>r. r\<lparr>processed_text := Some (preprocess_text self (crimeaditionalinfo r))\<rparr>) df)"
  have lab: "map (label c) d0 = map (label c) (filter (\<lambda>r. preprocess_text self (crimeaditionalinfo r) \<noteq> []) df)" for c
    unfolding d0_def by (induction df) (auto simp: label_def split: column.splits)
  from assms obtain s1 d1 where 1: "analyzer_column Category (self, d0) = Inr (s1, d1)"
    and 2: "analyzer_column SubCategory (s1, d1) = Inr (self', out)"
    by (auto simp: analyzer_prepare_data_def Let_def d0_def split: sum.splits)
  note a1 = analyzer_column_Inr[OF 1]
  note a2 = analyzer_column_Inr[OF 2]
  have n1: "min_samples_per_class s1 = ?n" by (simp add: a1(1))
  let ?cats = "fit (index_at_least ?n (value_counts (map (label Category) d0)))"
  let ?subs = "fit (index_at_least ?n (value_counts (map (label SubCategory) d1)))"
  have ec: "label_encoders self' Category = Some ?cats"
    and es: "label_encoders self' SubCategory = Some ?subs"
    by (simp_all add: a2(1) a1(1))
  have c: "?n \<le> int (support Category (filter (\<lambda>r. preprocess_text self (crimeaditionalinfo r) \<noteq> []) df) v)"
    if "v \<in> set ?cats" for v
  proof -
    from that have "?n \<le> int (support Category d0 v)"
      by (simp add: fit_set valid_class_iff support_def)
    then show ?thesis using support_cong[OF lab, of Category v] by simp
  qed
  have s: "?n \<le> int (support SubCategory out v)" if "v \<in> set ?subs" for v
  proof -
    from that have v: "?n \<le> int (support SubCategory d1 v)"
      by (simp add: fit_set valid_class_iff support_def)
    have "support SubCategory out v = support SubCategory (keep_valid_classes ?n SubCategory d1) v"
      using a2(2) n1 by (simp add: support_def)
    also have "\<dots> = support SubCategory d1 v"
      using v by (simp add: support_keep_same)
    finally show ?thesis using v by simp
  qed
  from ec es c s show ?thesis by blast
qed

lemma analyzer_example:
  "case analyzer_prepare_data (ClassifierInstance example_classifier) example_dataset of
     Inl e \<Rightarrow> False
   | Inr (self', out) \<Rightarrow> label_encoders self' SubCategory = Some [''UPI'']"
  by code_simp

lemma analyzer_no_valid_class:
  "case analyzer_prepare_data (ClassifierInstance example_classifier) (take 2 example_dataset) of
     Inl e \<Rightarrow> e = ValueError ''No classes have the minimum required 2 samples''
   | Inr st \<Rightarrow> False"
  by code_simp

lemma format_int_examples:
  "format_int 0 = ''0'' \<and> format_int 5 = ''5'' \<and> format_int 120 = ''120'' \<and> format_int (- 37) = ''-37''"
  by code_simp

text \<open>
  What data preparation does ensure.  When \<^verbatim>\<open>CybercrimeClassifier.prepare_data\<close> returns, the classes
  of each fitted encoder are the labels of that column in the prepared dataset; each
  category among them had at least \<^verbatim>\<open>min_samples_per_class\<close> rows in the input of the
  rare-class filter (the dataset with the synthetic rows), each sub-category in the
  output of the filter, which is where the filter counted them.  When
  \<^verbatim>\<open>DatasetAnalyzer.prepare_data\<close> returns for a \<^verbatim>\<open>self\<close> with the classifier's attributes,
  each class of the category encoder had that many rows among the rows with non-empty
  normalized text, and each class of the sub-category encoder has them in the prepared
  dataset.  On an instance of \<^verbatim>\<open>DatasetAnalyzer\<close> itself the method raises
  \<^verbatim>\<open>AttributeError\<close>.
\<close>

theorem encoder_classes_counted:
  "(\<forall>self' out. prepare_data self df = Inr (self', out) \<longrightarrow>
      (\<exists>df1 df2 cats subs.
         add_unknown_rows df = Inr df1 \<and> filter_rare_classes self df1 = Inr df2 \<and>
         label_encoders self' Category = Some cats \<and> label_encoders self' SubCategory = Some subs \<and>
         set cats = set (map category out) \<and> set subs = set (map sub_category out) \<and>
         (\<forall>v \<in> set cats. min_samples_per_class self \<le> int (support Category df1 v)) \<and>
         (\<forall>v \<in> set subs. min_samples_per_class self \<le> int (support SubCategory df2 v)))) \<and>
   (\<forall>self' out. analyzer_prepare_data (ClassifierInstance self) df = Inr (self', out) \<longrightarrow>
      (\<exists>cats subs.
         label_encoders self' Category = Some cats \<and> label_encoders self' SubCategory = Some subs \<and>
         (\<forall>v \<in> set cats. min_samples_per_class self \<le>
             int (support Category (filter (\<lambda>r. preprocess_text self (crimeaditionalinfo r) \<noteq> []) df) v)) \<and>
         (\<forall>v \<in> set subs. min_samples_per_class self \<le> int (support SubCategory out v)))) \<and>
   analyzer_prepare_data AnalyzerInstance df = Inl AttributeError"
proof (intro conjI allI impI)
  fix self' out
  assume p: "prepare_data self df = Inr (self', out)"
  from prepare_data_Inr[OF p] obtain df1 df2 where
    1: "add_unknown_rows df = Inr df1" and 2: "filter_rare_classes self df1 = Inr df2"
    and e: "\<And>c. label_encoders self' c = Some (fit (map (label c) out))"
    and l: "\<And>c. map (label c) out =
              map (label c) (filter (\<lambda>r. preprocess_text self (crimeaditionalinfo r) \<noteq> []) df2)"
    by blast
  have sub: "set (map (label c) out) \<subseteq> set (map (label c) df2)" for c
    unfolding l by auto
  have c: "\<forall>v \<in> set (fit (map (label Category) out)). min_samples_per_class self \<le> int (support Category df1 v)"
    using sub[of Category] filter_rare_classes_category_support[OF 2]
    by (auto simp: fit_set map_label_simps)
  have s: "\<forall>v \<in> set (fit (map (label SubCategory) out)). min_samples_per_class self \<le> int (support SubCategory df2 v)"
    using sub[of SubCategory] filter_rare_classes_sub_category_support[OF 2]
    by (auto simp: fit_set map_label_simps)
  have "set (fit (map (label Category) out)) = set (map category out)"
    and "set (fit (map (label SubCategory) out)) = set (map sub_category out)"
    by (simp_all add: fit_set map_label_simps)
  with 1 2 e[of Category] e[of SubCategory] c s
  show "\<exists>df1 df2 cats subs.
         add_unknown_rows df = Inr df1 \<and> filter_rare_classes self df1 = Inr df2 \<and>
         label_encoders self' Category = Some cats \<and> label_encoders self' SubCategory = Some subs \<and>
         set cats = set (map category out) \<and> set subs = set (map sub_category out) \<and>
         (\<forall>v \<in> set cats. min_samples_per_class self \<le> int (support Category df1 v)) \<and>
         (\<forall>v \<in> set subs. min_samples_per_class self \<le> int (support SubCategory df2 v))"
    by blast
next
  fix self' out
  assume "analyzer_prepare_data (ClassifierInstance self) df = Inr (self', out)"
  then show "\<exists>cats subs.
         label_encoders self' Category = Some cats \<and> label_encoders self' SubCategory = Some subs \<and>
         (\<forall>v \<in> set cats. min_samples_per_class self \<le>
             int (support Category (filter (\<lambda>r. preprocess_text self (crimeaditionalinfo r) \<noteq> []) df) v)) \<and>
         (\<forall>v \<in> set subs. min_samples_per_class self \<le> int (support SubCategory out v))"
    by (rule analyzer_prepare_data_Inr)
next
  show "analyzer_prepare_data AnalyzerInstance df = Inl AttributeError"
    by (simp add: analyzer_prepare_data_def)
qed

theorem encoder_classes_counted_witness:
  "(\<exists>self' out df1 cats.
      prepare_data example_classifier example_dataset = Inr (self', out) \<and>
      add_unknown_rows example_dataset = Inr df1 \<and>
      label_encoders self' Category = Some cats \<and>
      (\<forall>v \<in> set cats. min_samples_per_class example_classifier \<le> int (support Category df1 v))) \<and>
   (\<exists>self' out subs.
      analyzer_prepare_data (ClassifierInstance example_classifier) example_dataset = Inr (self', out) \<and>
      label_encoders self' SubCategory = Some subs \<and>
      (\<forall>v \<in> set subs. min_samples_per_class example_classifier \<le> int (support SubCategory out v)))"
proof -
  from prepare_example obtain self' out where
    p: "prepare_data example_classifier example_dataset = Inr (self', out)"
    by (cases "prepare_data example_classifier example_dataset") auto
  from analyzer_example obtain self'' out' where
    q: "analyzer_prepare_data (ClassifierInstance example_classifier) example_dataset = Inr (self'', out')"
    by (cases "analyzer_prepare_data (ClassifierInstance example_classifier) example_dataset") auto
  note T = encoder_classes_counted[of example_classifier example_dataset]
  from T[THEN conjunct1, rule_format, OF p] p
  have a: "\<exists>self' out df1 cats.
      prepare_data example_classifier example_dataset = Inr (self', out) \<and>
      add_unknown_rows example_dataset = Inr df1 \<and>
      label_encoders self' Category = Some cats \<and>
      (\<forall>v \<in> set cats. min_samples_per_class example_classifier \<le> int (support Category df1 v))"
    by blast
  from T[THEN conjunct2, THEN conjunct1, rule_format, OF q] q
  have b: "\<exists>self' out subs.
      analyzer_prepare_data (ClassifierInstance example_classifier) example_dataset = Inr (self', out) \<and>
      label_encoders self' SubCategory = Some subs \<and>
      (\<forall>v \<in> set subs. min_samples_per_class example_classifier \<le> int (support SubCategory out v))"
    by blast
  from a b show ?thesis by (rule conjI)
qed

text \<open>
  C4.  The claim: after data preparation every class of a fitted encoder has at least
  \<^verbatim>\<open>min_samples_per_class\<close> rows in the prepared dataset.  With the minimum 2,
  \<^verbatim>\<open>CybercrimeClassifier.prepare_data\<close> returns on the four example rows an encoder
  that holds the category Fraud, which has one row in the prepared dataset (its other
  row went with the rare sub-category Card); on the two rows of the second dataset it
  removes the row whose text normalizes to the empty string after the filter has
  counted it, with the same outcome.  \<^verbatim>\<open>DatasetAnalyzer.prepare_data\<close>, run with the
  classifier as \<^verbatim>\<open>self\<close>, fits the category encoder before it filters by
  sub-category, and leaves Fraud with one row as well.
\<close>

theorem encoder_keeps_rare_class:
  "(case prepare_data example_classifier example_dataset of
      Inl e \<Rightarrow> False
    | Inr (self', out) \<Rightarrow>
        min_samples_per_class self' = 2 \<and>
        label_encoders self' Category = Some [''Fraud'', ''Spam''] \<and>
        support Category out ''Fraud'' = 1) \<and>
   (case prepare_data example_classifier digits_dataset of
      Inl e \<Rightarrow> False
    | Inr (self', out) \<Rightarrow>
        min_samples_per_class self' = 2 \<and>
        label_encoders self' Category = Some [''Fraud''] \<and>
        support Category out ''Fraud'' = 1) \<and>
   (case analyzer_prepare_data (ClassifierInstance example_classifier) example_dataset of
      Inl e \<Rightarrow> False
    | Inr (self', out) \<Rightarrow>
        min_samples_per_class self' = 2 \<and>
        label_encoders self' Category = Some [''Fraud'', ''Spam''] \<and>
        support Category out ''Fraud'' = 1)"
  by code_simp

end
